theory Spec2Isabelle
  imports Main "HOL-Library.Char_ord" "HOL-Library.List_Lexorder"
begin

section \<open>Go values used by both resources\<close>

text \<open>
  A Go \<open>error\<close> value is either the SDK's structured \<open>*http_client.APIError\<close>
  (status code and message) or any other error, kept with its message. The
  type assertion \<open>err.(*http_client.APIError)\<close> of the source is a case
  distinction on this type. An error built by \<open>fmt.Errorf\<close> is never an
  \<open>APIError\<close>, also when it wraps one.

  A message is kept in parts: literal text, the text of another error where a
  format has the verb \<open>%v\<close>, \<open>%s\<close> or \<open>%w\<close> for an error (\<open>ErrorOf\<close>, the
  result of its \<open>Error()\<close> method), and the result of \<open>strconv.Quote\<close> on a
  string (\<open>Quoted\<close>). The two library functions are not computed.
\<close>

datatype go_error =
    APIError (StatusCode: int) (Message: string)
  | errorString "message_part list"
and message_part =
    Lit string
  | ErrorOf go_error
  | Quoted string

type_synonym message = "message_part list"

text \<open>Decimal formatting, as \<open>strconv.Itoa\<close> and the verb \<open>%d\<close> do it.\<close>

function FormatUint :: "nat \<Rightarrow> string" where
  "FormatUint n =
     (if n < 10 then [char_of (48 + n)]
      else FormatUint (n div 10) @ [char_of (48 + n mod 10)])"
  by pat_completeness auto
termination
  by (relation "measure (\<lambda>n. n)") auto

declare FormatUint.simps [simp del]

definition Itoa :: "int \<Rightarrow> string" where
  "Itoa i = (if i < 0 then ''-'' @ FormatUint (nat (- i)) else FormatUint (nat i))"

subsection \<open>\<open>strconv.Atoi\<close>\<close>

definition is_digit :: "char \<Rightarrow> bool" where
  "is_digit ch = (48 \<le> (of_char ch :: nat) \<and> (of_char ch :: nat) \<le> 57)"

text \<open>
  The \<open>*strconv.NumError\<close> of a failed conversion, by its message:
  \<open>"strconv." + Func + ": parsing " + Quote(Num) + ": " + Err\<close>.
\<close>

definition syntaxError :: "string \<Rightarrow> string \<Rightarrow> go_error" where
  "syntaxError fn s =
     errorString [Lit (''strconv.'' @ fn @ '': parsing ''), Quoted s, Lit '': invalid syntax'']"

definition rangeError :: "string \<Rightarrow> string \<Rightarrow> go_error" where
  "rangeError fn s =
     errorString [Lit (''strconv.'' @ fn @ '': parsing ''), Quoted s, Lit '': value out of range'']"

definition maxUint64 :: nat where
  "maxUint64 = 2 ^ 64 - 1"

text \<open>
  The digit loop of \<open>ParseUint\<close> in base 10 and 64 bits: it stops at the first
  byte that is not a digit, or as soon as the value leaves 64 bits.
\<close>

fun ParseUint_loop :: "string \<Rightarrow> string \<Rightarrow> string \<Rightarrow> nat \<Rightarrow> go_error + nat" where
  "ParseUint_loop fn s0 [] n = Inr n"
| "ParseUint_loop fn s0 (ch # rest) n =
     (if \<not> is_digit ch then Inl (syntaxError fn s0)
      else if maxUint64 div 10 + 1 \<le> n then Inl (rangeError fn s0)
      else
        let n1 = n * 10 + ((of_char ch :: nat) - 48)
        in if maxUint64 < n1 then Inl (rangeError fn s0)
           else ParseUint_loop fn s0 rest n1)"

text \<open>
  \<open>Atoi\<close> is \<open>ParseInt(s, 10, 0)\<close> on a 64-bit \<open>int\<close>, its errors renamed to
  \<open>Atoi\<close>: an optional sign, at least one digit, digits only, and a value
  between \<open>-2^63\<close> and \<open>2^63 - 1\<close>. (Its fast path for short strings returns
  the same values and the same syntax error.)
\<close>

definition Atoi :: "string \<Rightarrow> go_error + int" where
  "Atoi s0 =
     (if s0 = [] then Inl (syntaxError ''Atoi'' s0)
      else
        let neg = (hd s0 = CHR ''-'');
            s = (if hd s0 = CHR ''+'' \<or> hd s0 = CHR ''-'' then tl s0 else s0)
        in if s = [] then Inl (syntaxError ''Atoi'' s0)
           else
             (case ParseUint_loop ''Atoi'' s0 s 0 of
                Inl err \<Rightarrow> Inl err
              | Inr un \<Rightarrow>
                  if \<not> neg \<and> 2 ^ 63 \<le> un then Inl (rangeError ''Atoi'' s0)
                  else if neg \<and> 2 ^ 63 < un then Inl (rangeError ''Atoi'' s0)
                  else Inr (if neg then - int un else int un)))"

subsection \<open>Diagnostics\<close>

datatype severity = diag_Error | diag_Warning

record Diagnostic =
  Severity :: severity
  Summary :: message
  Detail :: message

definition diag_FromErr :: "go_error \<Rightarrow> Diagnostic list" where
  "diag_FromErr err = [\<lparr>Severity = diag_Error, Summary = [ErrorOf err], Detail = []\<rparr>]"

definition diag_Errorf :: "string \<Rightarrow> Diagnostic list" where
  "diag_Errorf msg = [\<lparr>Severity = diag_Error, Summary = [Lit msg], Detail = []\<rparr>]"

text \<open>
  A nil pointer dereference is a Go panic. The callbacks below dereference the
  variable a retry closure assigns; that branch is given this diagnostic, and
  \<open>RetryContext\<close> returning no error always leaves the variable assigned
  (\<open>account_read_success_assigns\<close>, \<open>account_create_success_assigns\<close>).
\<close>

definition nil_dereference :: "Diagnostic list" where
  "nil_dereference =
     diag_Errorf ''panic: runtime error: invalid memory address or nil pointer dereference''"

subsection \<open>\<open>xml.MarshalIndent\<close>\<close>

text \<open>
  \<open>utf8.DecodeRune\<close> on a non-empty byte string: the code point and the number
  of bytes read. A byte sequence that is not the shortest encoding of a code
  point outside the surrogates gives the error rune \<open>U+FFFD\<close> and width 1.
  A byte past the end of the string is read as 0 and never looked at: the
  length is tested first.
\<close>

definition continuation :: "nat \<Rightarrow> bool" where
  "continuation b = (128 \<le> b \<and> b \<le> 191)"

definition byte_at :: "string \<Rightarrow> nat \<Rightarrow> nat" where
  "byte_at s i = (if i < length s then of_char (s ! i) else 0)"

definition DecodeRune :: "string \<Rightarrow> nat \<times> nat" where
  "DecodeRune s =
     (let b0 = byte_at s 0;
          b1 = byte_at s 1;
          b2 = byte_at s 2;
          b3 = byte_at s 3;
          n = length s
      in if b0 < 128 then (b0, 1)
         else if 194 \<le> b0 \<and> b0 \<le> 223 then
           (if 2 \<le> n \<and> continuation b1 then ((b0 - 192) * 64 + (b1 - 128), 2)
            else (65533, 1))
         else if 224 \<le> b0 \<and> b0 \<le> 239 then
           (if 3 \<le> n \<and> (if b0 = 224 then 160 else 128) \<le> b1 \<and>
               b1 \<le> (if b0 = 237 then 159 else 191) \<and> continuation b2
            then ((b0 - 224) * 4096 + (b1 - 128) * 64 + (b2 - 128), 3)
            else (65533, 1))
         else if 240 \<le> b0 \<and> b0 \<le> 244 then
           (if 4 \<le> n \<and> (if b0 = 240 then 144 else 128) \<le> b1 \<and>
               b1 \<le> (if b0 = 244 then 143 else 191) \<and> continuation b2 \<and> continuation b3
            then ((b0 - 240) * 262144 + (b1 - 128) * 4096 + (b2 - 128) * 64 + (b3 - 128), 4)
            else (65533, 1))
         else (65533, 1))"

definition isInCharacterRange :: "nat \<Rightarrow> bool" where
  "isInCharacterRange r =
     (r = 9 \<or> r = 10 \<or> r = 13 \<or> (32 \<le> r \<and> r \<le> 55295) \<or> (57344 \<le> r \<and> r \<le> 65533) \<or>
      (65536 \<le> r \<and> r \<le> 1114111))"

text \<open>
  \<open>xml.EscapeText\<close>: rune by rune, the five markup characters, tab, newline
  and carriage return as character references, a rune outside the character
  range of XML and a byte that does not decode as \<open>U+FFFD\<close>, every other rune
  as its own bytes.
\<close>

function EscapeText :: "string \<Rightarrow> string" where
  "EscapeText s =
     (if s = [] then []
      else
        let r = fst (DecodeRune s);
            width = snd (DecodeRune s);
            esc =
              (if r = 34 then ''&#34;''
               else if r = 39 then ''&#39;''
               else if r = 38 then ''&amp;''
               else if r = 60 then ''&lt;''
               else if r = 62 then ''&gt;''
               else if r = 9 then ''&#x9;''
               else if r = 10 then ''&#xA;''
               else if r = 13 then ''&#xD;''
               else if \<not> isInCharacterRange r \<or> (r = 65533 \<and> width = 1)
                 then [CHR 0xEF, CHR 0xBF, CHR 0xBD]
               else take width s)
        in esc @ EscapeText (drop width s))"
  by pat_completeness auto
termination
  by (relation "measure length") (auto simp: DecodeRune_def Let_def)

declare EscapeText.simps [simp del]

text \<open>
  The marshaller of \<open>encoding/xml\<close> works on the reflected value. It writes
  strings, integers and booleans as escaped text, a struct as an element with
  one child per field, a slice as its elements in a row, nothing for a nil
  pointer, and fails with an error on a channel, a function or a map, and on a
  value it finds no element name for.
\<close>

datatype go_value =
    GoString string
  | GoInt int
  | GoBool bool
  | GoStruct string "(string \<times> go_value) list"
  | GoSlice "go_value list"
  | GoPointer "go_value option"
  | GoChan
  | GoFunc
  | GoMap

definition UnsupportedTypeError :: go_error where
  "UnsupportedTypeError = errorString [Lit ''xml: unsupported type'']"

definition indentation :: "string \<Rightarrow> nat \<Rightarrow> string" where
  "indentation indent depth = concat (replicate depth indent)"

text \<open>
  \<open>marshalValue indent depth name v\<close> gives the lines of the element for
  \<open>v\<close>; \<open>name\<close> is the name of the field that holds \<open>v\<close>, empty at the top,
  where the name of the type is used.
\<close>

fun marshalValue :: "string \<Rightarrow> nat \<Rightarrow> string \<Rightarrow> go_value \<Rightarrow> go_error + string list"
  and marshalFields :: "string \<Rightarrow> nat \<Rightarrow> (string \<times> go_value) list \<Rightarrow> go_error + string list"
  and marshalElems :: "string \<Rightarrow> nat \<Rightarrow> string \<Rightarrow> go_value list \<Rightarrow> go_error + string list" where
  "marshalValue indent depth name (GoPointer None) = Inr []"
| "marshalValue indent depth name (GoPointer (Some v)) = marshalValue indent depth name v"
| "marshalValue indent depth name (GoSlice vs) = marshalElems indent depth name vs"
| "marshalValue indent depth name GoChan = Inl UnsupportedTypeError"
| "marshalValue indent depth name GoFunc = Inl UnsupportedTypeError"
| "marshalValue indent depth name GoMap = Inl UnsupportedTypeError"
| "marshalValue indent depth name (GoStruct tname flds) =
     (let start = (if name \<noteq> [] then name else tname)
      in if start = [] then Inl UnsupportedTypeError
         else
           (case marshalFields indent (Suc depth) flds of
              Inl err \<Rightarrow> Inl err
            | Inr [] \<Rightarrow> Inr [indentation indent depth @ ''<'' @ start @ ''></'' @ start @ ''>'']
            | Inr children \<Rightarrow>
                Inr ([indentation indent depth @ ''<'' @ start @ ''>''] @ children @
                     [indentation indent depth @ ''</'' @ start @ ''>''])))"
| "marshalValue indent depth name (GoString s) =
     (let start = (if name \<noteq> [] then name else ''string'')
      in Inr [indentation indent depth @ ''<'' @ start @ ''>'' @ EscapeText s @ ''</'' @ start @ ''>''])"
| "marshalValue indent depth name (GoInt i) =
     (let start = (if name \<noteq> [] then name else ''int'')
      in Inr [indentation indent depth @ ''<'' @ start @ ''>'' @ Itoa i @ ''</'' @ start @ ''>''])"
| "marshalValue indent depth name (GoBool b) =
     (let start = (if name \<noteq> [] then name else ''bool'')
      in Inr [indentation indent depth @ ''<'' @ start @ ''>'' @ (if b then ''true'' else ''false'') @
              ''</'' @ start @ ''>''])"
| "marshalFields indent depth [] = Inr []"
| "marshalFields indent depth ((fname, v) # rest) =
     (case marshalValue indent depth fname v of
        Inl err \<Rightarrow> Inl err
      | Inr ls \<Rightarrow>
          (case marshalFields indent depth rest of
             Inl err \<Rightarrow> Inl err
           | Inr ls' \<Rightarrow> Inr (ls @ ls')))"
| "marshalElems indent depth name [] = Inr []"
| "marshalElems indent depth name (v # rest) =
     (case marshalValue indent depth name v of
        Inl err \<Rightarrow> Inl err
      | Inr ls \<Rightarrow>
          (case marshalElems indent depth name rest of
             Inl err \<Rightarrow> Inl err
           | Inr ls' \<Rightarrow> Inr (ls @ ls')))"

fun join_lines :: "string \<Rightarrow> string list \<Rightarrow> string" where
  "join_lines prefix [] = []"
| "join_lines prefix [l] = prefix @ l"
| "join_lines prefix (l # ls) = prefix @ l @ [CHR 0x0A] @ join_lines prefix ls"

definition xml_MarshalIndent :: "go_value \<Rightarrow> string \<Rightarrow> string \<Rightarrow> go_error + string" where
  "xml_MarshalIndent v prefix indent =
     (case marshalValue indent 0 [] v of
        Inl err \<Rightarrow> Inl err
      | Inr ls \<Rightarrow> Inr (join_lines prefix ls))"


section \<open>The Jamf Pro SDK: entities and client\<close>

text \<open>
  The entity types belong to the SDK; each record has the fields the source
  reads or writes. A zero value is the Go zero value of the struct.
\<close>

record ResourceDepartment =
  Department_Name :: string

record DepartmentCreationResponse =
  Response_ID :: string

record AccountSubsetLdapServer =
  LdapServer_ID :: int
  LdapServer_Name :: string

record SharedResourceSite =
  Site_ID :: int
  Site_Name :: string

record AccountSubsetPrivileges =
  JSSObjects :: "string list"
  JSSSettings :: "string list"
  JSSActions :: "string list"
  CasperAdmin :: "string list"
  CasperRemote :: "string list"
  CasperImaging :: "string list"
  Recon :: "string list"

record AccountsListSubsetGroups =
  Group_ID :: int
  Group_Name :: string
  Group_Site :: SharedResourceSite
  Group_Privileges :: AccountSubsetPrivileges

record ResourceAccount =
  Name :: string
  DirectoryUser :: bool
  FullName :: string
  Email :: string
  Enabled :: string
  LdapServer :: AccountSubsetLdapServer
  ForcePasswordChange :: bool
  AccessLevel :: string
  Password :: string
  PrivilegeSet :: string
  Site :: SharedResourceSite
  Groups :: "AccountsListSubsetGroups list"
  Privileges :: AccountSubsetPrivileges

record ResponseAccountsList =
  List_Groups :: "AccountsListSubsetGroups list"

record ResponseAccountCreatedAndUpdated =
  Created_ID :: int

definition zero_LdapServer :: AccountSubsetLdapServer where
  "zero_LdapServer = \<lparr>LdapServer_ID = 0, LdapServer_Name = ''''\<rparr>"

definition zero_Site :: SharedResourceSite where
  "zero_Site = \<lparr>Site_ID = 0, Site_Name = ''''\<rparr>"

definition zero_Privileges :: AccountSubsetPrivileges where
  "zero_Privileges =
     \<lparr>JSSObjects = [], JSSSettings = [], JSSActions = [], CasperAdmin = [],
      CasperRemote = [], CasperImaging = [], Recon = []\<rparr>"

definition zero_Account :: ResourceAccount where
  "zero_Account =
     \<lparr>Name = '''', DirectoryUser = False, FullName = '''', Email = '''', Enabled = '''',
      LdapServer = zero_LdapServer, ForcePasswordChange = False, AccessLevel = '''',
      Password = '''', PrivilegeSet = '''', Site = zero_Site, Groups = [],
      Privileges = zero_Privileges\<rparr>"

text \<open>
  The remote system is reached through the client only. Every call is logged,
  and so is every wait of a retry loop (\<open>RetryWait\<close>); the log is the state of
  the world the callbacks run in. A method answers from the log of what
  happened before it and its arguments, so a remote may answer the same
  request differently over time. A method that returns only an error, or
  whose response the source discards, gives \<open>None\<close> for \<open>nil\<close>.
  \<open>GetDepartmentByID\<close> may return a nil department without an error, which
  the source checks; the other responses are dereferenced by the source
  unchecked and are taken to be non-nil.
\<close>

datatype event =
    CallGetAccounts
  | CallCreateAccount ResourceAccount
  | CallGetAccountByID int
  | CallGetAccountByName string
  | CallUpdateAccountByID int ResourceAccount
  | CallUpdateAccountByName string ResourceAccount
  | CallDeleteAccountByID int
  | CallDeleteAccountByName string
  | CallCreateDepartment ResourceDepartment
  | CallGetDepartmentByID string
  | CallUpdateDepartmentByID string ResourceDepartment
  | CallUpdateDepartmentByName string ResourceDepartment
  | CallDeleteDepartmentByID string
  | CallDeleteDepartmentByName string
  | RetryWait

type_synonym world = "event list"

record Client =
  GetAccounts :: "world \<Rightarrow> go_error + ResponseAccountsList"
  CreateAccount :: "world \<Rightarrow> ResourceAccount \<Rightarrow> go_error + ResponseAccountCreatedAndUpdated"
  GetAccountByID :: "world \<Rightarrow> int \<Rightarrow> go_error + ResourceAccount"
  GetAccountByName :: "world \<Rightarrow> string \<Rightarrow> go_error + ResourceAccount"
  UpdateAccountByID :: "world \<Rightarrow> int \<Rightarrow> ResourceAccount \<Rightarrow> go_error option"
  UpdateAccountByName :: "world \<Rightarrow> string \<Rightarrow> ResourceAccount \<Rightarrow> go_error option"
  DeleteAccountByID :: "world \<Rightarrow> int \<Rightarrow> go_error option"
  DeleteAccountByName :: "world \<Rightarrow> string \<Rightarrow> go_error option"
  CreateDepartment :: "world \<Rightarrow> ResourceDepartment \<Rightarrow> go_error + DepartmentCreationResponse"
  GetDepartmentByID :: "world \<Rightarrow> string \<Rightarrow> go_error + ResourceDepartment option"
  UpdateDepartmentByID :: "world \<Rightarrow> string \<Rightarrow> ResourceDepartment \<Rightarrow> go_error option"
  UpdateDepartmentByName :: "world \<Rightarrow> string \<Rightarrow> ResourceDepartment \<Rightarrow> go_error option"
  DeleteDepartmentByID :: "world \<Rightarrow> string \<Rightarrow> go_error option"
  DeleteDepartmentByName :: "world \<Rightarrow> string \<Rightarrow> go_error option"

subsection \<open>\<open>retry.RetryContext\<close>\<close>

record RetryError =
  Err :: go_error
  Retryable :: bool

definition RetryableError :: "go_error \<Rightarrow> RetryError" where
  "RetryableError err = \<lparr>Err = err, Retryable = True\<rparr>"

definition NonRetryableError :: "go_error \<Rightarrow> RetryError" where
  "NonRetryableError err = \<lparr>Err = err, Retryable = False\<rparr>"

record ResourceTimeout =
  TimeoutCreate :: nat
  TimeoutRead :: nat
  TimeoutUpdate :: nat
  TimeoutDelete :: nat

definition TimeoutError :: go_error where
  "TimeoutError =
     errorString [Lit (''timeout while waiting for state to become '' @ [CHR 0x27] @ ''success'' @
       [CHR 0x27])]"

text \<open>
  Time is counted in waits of a retry loop: the clock of a world is the
  number of waits in its log, a remote call takes no time, and a timeout
  \<open>d.Timeout(key)\<close> is a number of waits. \<open>RetryContext\<close> runs the closure
  \<open>f\<close> of the source on the variable \<open>v\<close> the closure assigns and the world.
  It returns \<open>nil\<close> when a run returns \<open>nil\<close>, and the error of a run that
  is not retryable at once. After a retryable error it waits and, unless the
  timeout has passed, runs \<open>f\<close> again; when the timeout has passed it returns
  the error of the last run, or a timeout error when there was no run. The
  time a run itself took counts: a closure that runs a retry loop of its own
  uses up the time of the loop around it. A run that has started is not cut
  short.
\<close>

definition now :: "world \<Rightarrow> nat" where
  "now w = length (filter (\<lambda>e. e = RetryWait) w)"

function retry_loop ::
  "nat \<Rightarrow> ('v \<times> world \<Rightarrow> RetryError option \<times> 'v \<times> world) \<Rightarrow> go_error \<Rightarrow> 'v \<times> world
     \<Rightarrow> go_error option \<times> 'v \<times> world" where
  "retry_loop remaining f resultErr (v, w) =
     (if remaining = 0 then (Some resultErr, v, w)
      else
        (case f (v, w) of
           (None, s') \<Rightarrow> (None, s')
         | (Some rerr, v', w') \<Rightarrow>
             if Retryable rerr
             then retry_loop (remaining - 1 - (now w' - now w)) f (Err rerr) (v', w' @ [RetryWait])
             else (Some (Err rerr), v', w')))"
  by pat_completeness auto
termination
  by (relation "measure (\<lambda>(remaining, f, resultErr, s). remaining)") auto

declare retry_loop.simps [simp del]

definition RetryContext ::
  "nat \<Rightarrow> ('v \<times> world \<Rightarrow> RetryError option \<times> 'v \<times> world) \<Rightarrow> 'v \<times> world
     \<Rightarrow> go_error option \<times> 'v \<times> world" where
  "RetryContext timeout f s = retry_loop timeout f TimeoutError s"


section \<open>Departments\<close>

text \<open>
  \<open>schema.ResourceData\<close> under the department schema: the identifier and the
  one string attribute \<open>name\<close>. \<open>meta\<close> is \<open>Some\<close> client when the assertion
  \<open>meta.(*client.APIClient)\<close> holds. Printing and logging are left out: they
  feed nothing back into the state, the diagnostics or the calls. A closure
  that assigns no variable of the callback has the unit value for it.
\<close>

record DepartmentData =
  dep_id :: string
  dep_name :: string

definition reflect_Department :: "ResourceDepartment \<Rightarrow> go_value" where
  "reflect_Department department =
     GoPointer (Some (GoStruct ''ResourceDepartment''
       [(''name'', GoString (Department_Name department))]))"

definition constructJamfProDepartment :: "DepartmentData \<Rightarrow> go_error + ResourceDepartment" where
  "constructJamfProDepartment d =
     (let department = \<lparr>Department_Name = dep_name d\<rparr>
      in case xml_MarshalIndent (reflect_Department department) '''' ''  '' of
           Inl err \<Rightarrow>
             Inl (errorString [Lit (''failed to marshal Jamf Pro Department '' @ [CHR 0x27] @
                    Department_Name department @ [CHR 0x27] @ '' to XML: ''), ErrorOf err])
         | Inr resourceXML \<Rightarrow> Inr department)"

definition department_read_attempt ::
  "Client \<Rightarrow> string \<Rightarrow> ResourceDepartment option \<times> world
     \<Rightarrow> RetryError option \<times> ResourceDepartment option \<times> world" where
  "department_read_attempt conn resourceID = (\<lambda>(department, w).
     case GetDepartmentByID conn w resourceID of
       Inl apiErr \<Rightarrow> (Some (RetryableError apiErr), None, w @ [CallGetDepartmentByID resourceID])
     | Inr fetched \<Rightarrow> (None, fetched, w @ [CallGetDepartmentByID resourceID]))"

definition ResourceJamfProDepartmentsRead ::
  "ResourceTimeout \<Rightarrow> DepartmentData \<Rightarrow> Client option \<Rightarrow> world
     \<Rightarrow> Diagnostic list \<times> DepartmentData \<times> world" where
  "ResourceJamfProDepartmentsRead tm d meta w =
     (case meta of
        None \<Rightarrow> (diag_Errorf ''error asserting meta as *client.APIClient'', d, w)
      | Some conn \<Rightarrow>
          let resourceID = dep_id d
          in case RetryContext (TimeoutRead tm) (department_read_attempt conn resourceID) (None, w) of
               (Some err, department, w') \<Rightarrow>
                 (diag_FromErr (errorString [Lit (''failed to read Jamf Pro Department with ID '' @
                      [CHR 0x27] @ resourceID @ [CHR 0x27] @ '' after retries: ''), ErrorOf err]),
                  d\<lparr>dep_id := ''''\<rparr>, w')
             | (None, Some department, w') \<Rightarrow>
                 ([], d\<lparr>dep_id := resourceID, dep_name := Department_Name department\<rparr>, w')
             | (None, None, w') \<Rightarrow> ([], d\<lparr>dep_id := ''''\<rparr>, w'))"

definition ResourceJamfProDepartmentsCreate ::
  "ResourceTimeout \<Rightarrow> DepartmentData \<Rightarrow> Client option \<Rightarrow> world
     \<Rightarrow> Diagnostic list \<times> DepartmentData \<times> world" where
  "ResourceJamfProDepartmentsCreate tm d meta w =
     (case meta of
        None \<Rightarrow> (diag_Errorf ''error asserting meta as *client.APIClient'', d, w)
      | Some conn \<Rightarrow>
          let resourceName = dep_name d
          in case constructJamfProDepartment d of
               Inl err \<Rightarrow>
                 (diag_FromErr (errorString [Lit (''failed to construct Jamf Pro Department '' @
                      [CHR 0x27] @ resourceName @ [CHR 0x27] @ '': ''), ErrorOf err]), d, w)
             | Inr department \<Rightarrow>
                 (case CreateDepartment conn w department of
                    Inl err \<Rightarrow>
                      (diag_FromErr (errorString [Lit (''failed to create Jamf Pro Department '' @
                           [CHR 0x27] @ resourceName @ [CHR 0x27] @ '': ''), ErrorOf err]),
                       d, w @ [CallCreateDepartment department])
                  | Inr creationResponse \<Rightarrow>
                      ResourceJamfProDepartmentsRead tm
                        (d\<lparr>dep_id := Response_ID creationResponse\<rparr>) meta
                        (w @ [CallCreateDepartment department])))"

definition department_update_attempt ::
  "Client \<Rightarrow> string \<Rightarrow> string \<Rightarrow> ResourceDepartment \<Rightarrow> unit \<times> world
     \<Rightarrow> RetryError option \<times> unit \<times> world" where
  "department_update_attempt conn resourceID resourceName department = (\<lambda>(u, w).
     case UpdateDepartmentByID conn w resourceID department of
       None \<Rightarrow> (None, u, w @ [CallUpdateDepartmentByID resourceID department])
     | Some apiErr \<Rightarrow>
         let w1 = w @ [CallUpdateDepartmentByID resourceID department]
         in case UpdateDepartmentByName conn w1 resourceName department of
              Some apiErrByName \<Rightarrow>
                (Some (RetryableError (errorString [Lit (''failed to update department '' @
                    [CHR 0x27] @ resourceName @ [CHR 0x27] @ '' by ID '' @ [CHR 0x27] @ resourceID @
                    [CHR 0x27] @ '' and by name due to errors: ''), ErrorOf apiErr, Lit '', '',
                    ErrorOf apiErrByName])),
                 u, w1 @ [CallUpdateDepartmentByName resourceName department])
            | None \<Rightarrow> (None, u, w1 @ [CallUpdateDepartmentByName resourceName department]))"

definition ResourceJamfProDepartmentsUpdate ::
  "ResourceTimeout \<Rightarrow> DepartmentData \<Rightarrow> Client option \<Rightarrow> world
     \<Rightarrow> Diagnostic list \<times> DepartmentData \<times> world" where
  "ResourceJamfProDepartmentsUpdate tm d meta w =
     (case meta of
        None \<Rightarrow> (diag_Errorf ''error asserting meta as *client.APIClient'', d, w)
      | Some conn \<Rightarrow>
          let resourceID = dep_id d;
              resourceName = dep_name d
          in case constructJamfProDepartment d of
               Inl err \<Rightarrow>
                 (diag_FromErr (errorString [Lit (''error constructing Jamf Pro Department '' @
                      [CHR 0x27] @ resourceName @ [CHR 0x27] @ '': ''), ErrorOf err]), d, w)
             | Inr department \<Rightarrow>
                 (case RetryContext (TimeoutUpdate tm)
                         (department_update_attempt conn resourceID resourceName department)
                         ((), w) of
                    (Some err, u, w') \<Rightarrow>
                      (diag_FromErr (errorString [Lit (''final attempt to update department '' @
                           [CHR 0x27] @ resourceName @ [CHR 0x27] @ '' failed: ''), ErrorOf err]),
                       d, w')
                  | (None, u, w') \<Rightarrow> ResourceJamfProDepartmentsRead tm d meta w'))"

definition department_delete_attempt ::
  "Client \<Rightarrow> string \<Rightarrow> string \<Rightarrow> unit \<times> world \<Rightarrow> RetryError option \<times> unit \<times> world" where
  "department_delete_attempt conn resourceID resourceName = (\<lambda>(u, w).
     case DeleteDepartmentByID conn w resourceID of
       None \<Rightarrow> (None, u, w @ [CallDeleteDepartmentByID resourceID])
     | Some apiErr \<Rightarrow>
         let w1 = w @ [CallDeleteDepartmentByID resourceID]
         in case DeleteDepartmentByName conn w1 resourceName of
              Some apiErrByName \<Rightarrow>
                (Some (RetryableError (errorString [Lit (''failed to delete department '' @
                    [CHR 0x27] @ resourceName @ [CHR 0x27] @ '' by ID '' @ [CHR 0x27] @ resourceID @
                    [CHR 0x27] @ '' and by name due to errors: ''), ErrorOf apiErr, Lit '', '',
                    ErrorOf apiErrByName])),
                 u, w1 @ [CallDeleteDepartmentByName resourceName])
            | None \<Rightarrow> (None, u, w1 @ [CallDeleteDepartmentByName resourceName]))"

definition ResourceJamfProDepartmentsDelete ::
  "ResourceTimeout \<Rightarrow> DepartmentData \<Rightarrow> Client option \<Rightarrow> world
     \<Rightarrow> Diagnostic list \<times> DepartmentData \<times> world" where
  "ResourceJamfProDepartmentsDelete tm d meta w =
     (case meta of
        None \<Rightarrow> (diag_Errorf ''error asserting meta as *client.APIClient'', d, w)
      | Some conn \<Rightarrow>
          let resourceID = dep_id d;
              resourceName = dep_name d
          in case RetryContext (TimeoutDelete tm)
                    (department_delete_attempt conn resourceID resourceName) ((), w) of
               (Some err, u, w') \<Rightarrow>
                 (diag_FromErr (errorString [Lit (''final attempt to delete department '' @
                      [CHR 0x27] @ resourceName @ [CHR 0x27] @ '' failed: ''), ErrorOf err]),
                  d, w')
             | (None, u, w') \<Rightarrow> ([], d\<lparr>dep_id := ''''\<rparr>, w'))"


section \<open>Accounts\<close>

text \<open>
  A \<open>schema.Set\<close> is the hash function \<open>F\<close> of its schema and a map from hash
  codes to items, kept here as the list of its entries in the order of their
  codes, one entry for a code. \<open>Add\<close> computes the code of an item, the
  decimal text of the absolute value of \<open>F\<close>, and stores the item unless the
  code is taken; \<open>List\<close> returns the items in the order of their codes,
  compared as strings. The hash function belongs to the plugin SDK and is
  whatever function the set carries.
\<close>

record 'a schema_Set =
  Set_F :: "'a \<Rightarrow> int"
  Set_m :: "(string \<times> 'a) list"

definition Set_hash :: "'a schema_Set \<Rightarrow> 'a \<Rightarrow> string" where
  "Set_hash s item =
     (let code = Set_F s item
      in Itoa (if code < 0 \<and> code \<noteq> - (2 ^ 63) then - code else code))"

definition Set_Add :: "'a \<Rightarrow> 'a schema_Set \<Rightarrow> 'a schema_Set" where
  "Set_Add item s =
     (let code = Set_hash s item
      in if code \<in> set (map fst (Set_m s)) then s
         else s\<lparr>Set_m := insort_key fst (code, item) (Set_m s)\<rparr>)"

definition NewSet :: "('a \<Rightarrow> int) \<Rightarrow> 'a list \<Rightarrow> 'a schema_Set" where
  "NewSet f items = fold Set_Add items \<lparr>Set_F = f, Set_m = []\<rparr>"

definition Set_List :: "'a schema_Set \<Rightarrow> 'a list" where
  "Set_List s = map snd (Set_m s)"

text \<open>
  \<open>schema.ResourceData\<close> under the account schema, one field per attribute,
  typed as the schema types it. A list of nested blocks may hold a nil
  element (\<open>None\<close>), which the constructor checks for. \<open>d.Get\<close> of a string
  attribute always is a string, so the branches for a failed assertion
  \<open>d.Get("name").(string)\<close> have no counterpart; \<open>d.GetOk\<close> is true when
  the value is not the zero value; \<open>d.Set\<close> of a value of the attribute's
  type does not fail, and \<open>d.Set\<close> of a list into the set attribute
  \<open>groups\<close> builds a new set with the hash function of the schema.
\<close>

record ldap_server_block =
  ls_id :: int
  ls_name :: string

record site_block =
  st_id :: int
  st_name :: string

record group_block =
  grp_name :: string
  grp_id :: int
  grp_site :: "site_block option list"
  grp_jss_objects_privileges :: "string list"
  grp_jss_settings_privileges :: "string list"
  grp_jss_actions_privileges :: "string list"
  grp_casper_admin_privileges :: "string list"
  grp_casper_remote_privileges :: "string list"
  grp_casper_imaging_privileges :: "string list"
  grp_recon_privileges :: "string list"

record AccountData =
  a_id :: string
  a_name :: string
  a_directory_user :: bool
  a_full_name :: string
  a_email :: string
  a_email_address :: string
  a_enabled :: string
  a_ldap_server :: "ldap_server_block option list"
  a_force_password_change :: bool
  a_access_level :: string
  a_password :: string
  a_privilege_set :: string
  a_site :: "site_block option list"
  a_groups :: "group_block schema_Set"
  a_jss_objects_privileges :: "string list"
  a_jss_settings_privileges :: "string list"
  a_jss_actions_privileges :: "string list"
  a_casper_admin_privileges :: "string list"
  a_casper_remote_privileges :: "string list"
  a_casper_imaging_privileges :: "string list"
  a_recon_privileges :: "string list"

text \<open>
  The helpers of the package \<open>type_assertion\<close> are taken as parameters: any
  three functions of these types.
\<close>

record type_assertion =
  GetStringFromInterface :: "string \<Rightarrow> string"
  GetIntFromInterface :: "int \<Rightarrow> int"
  GetStringSliceFromInterface :: "string list \<Rightarrow> string list"

text \<open>The loop over the groups of the configuration: it returns at the first unknown name.\<close>

fun construct_groups ::
  "(string \<rightharpoonup> int) \<Rightarrow> group_block list \<Rightarrow> AccountsListSubsetGroups list
     \<Rightarrow> go_error + AccountsListSubsetGroups list" where
  "construct_groups groupNameToID [] acc = Inr acc"
| "construct_groups groupNameToID (groupMap # rest) acc =
     (let groupName = grp_name groupMap
      in case groupNameToID groupName of
           None \<Rightarrow> Inl (errorString [Lit (''group name '' @ groupName @ '' does not exist'')])
         | Some groupID \<Rightarrow>
             construct_groups groupNameToID rest
               (acc @ [\<lparr>Group_ID = groupID, Group_Name = groupName,
                        Group_Site = zero_Site, Group_Privileges = zero_Privileges\<rparr>]))"

text \<open>
  The constructor in three steps, in the order of the source: the fields read
  from the configuration alone (up to the site), the groups, whose IDs are
  looked up in the list that \<open>GetAccounts\<close> returns, and the privileges.
\<close>

definition account_fields :: "type_assertion \<Rightarrow> AccountData \<Rightarrow> ResourceAccount" where
  "account_fields util d =
     (let account = zero_Account
            \<lparr>Name := GetStringFromInterface util (a_name d),
             DirectoryUser := a_directory_user d,
             FullName := GetStringFromInterface util (a_full_name d),
             Email := GetStringFromInterface util (a_email d),
             Enabled := GetStringFromInterface util (a_enabled d),
             ForcePasswordChange := a_force_password_change d,
             AccessLevel := GetStringFromInterface util (a_access_level d),
             Password := GetStringFromInterface util (a_password d),
             PrivilegeSet := GetStringFromInterface util (a_privilege_set d)\<rparr>;
          account =
            (case a_ldap_server d of
               Some ldapServerMap # _ \<Rightarrow>
                 account\<lparr>LdapServer :=
                   \<lparr>LdapServer_ID = GetIntFromInterface util (ls_id ldapServerMap),
                    LdapServer_Name = GetStringFromInterface util (ls_name ldapServerMap)\<rparr>\<rparr>
             | _ \<Rightarrow> account);
          account =
            (case a_site d of
               Some siteMap # _ \<Rightarrow>
                 account\<lparr>Site :=
                   \<lparr>Site_ID = GetIntFromInterface util (st_id siteMap),
                    Site_Name = GetStringFromInterface util (st_name siteMap)\<rparr>\<rparr>
             | _ \<Rightarrow> account)
      in account)"

definition account_privileges :: "type_assertion \<Rightarrow> AccountData \<Rightarrow> AccountSubsetPrivileges" where
  "account_privileges util d =
     \<lparr>JSSObjects = GetStringSliceFromInterface util (a_jss_objects_privileges d),
      JSSSettings = GetStringSliceFromInterface util (a_jss_settings_privileges d),
      JSSActions = GetStringSliceFromInterface util (a_jss_actions_privileges d),
      CasperAdmin = GetStringSliceFromInterface util (a_casper_admin_privileges d),
      CasperRemote = GetStringSliceFromInterface util (a_casper_remote_privileges d),
      CasperImaging = GetStringSliceFromInterface util (a_casper_imaging_privileges d),
      Recon = GetStringSliceFromInterface util (a_recon_privileges d)\<rparr>"

definition constructJamfProAccount ::
  "type_assertion \<Rightarrow> AccountData \<Rightarrow> Client \<Rightarrow> world \<Rightarrow> (go_error + ResourceAccount) \<times> world" where
  "constructJamfProAccount util d client w =
     (let account = account_fields util d
      in case GetAccounts client w of
           Inl err \<Rightarrow> (Inl err, w @ [CallGetAccounts])
         | Inr allAccounts \<Rightarrow>
             let groupNameToID =
                   fold (\<lambda>group m. m(Group_Name group \<mapsto> Group_ID group))
                     (List_Groups allAccounts) Map.empty
             in case construct_groups groupNameToID (Set_List (a_groups d)) (Groups account) of
                  Inl err \<Rightarrow> (Inl err, w @ [CallGetAccounts])
                | Inr groups \<Rightarrow>
                    (Inr (account\<lparr>Groups := groups, Privileges := account_privileges util d\<rparr>),
                     w @ [CallGetAccounts]))"

definition generateTFDiagsFromHTTPError :: "go_error \<Rightarrow> AccountData \<Rightarrow> string \<Rightarrow> Diagnostic list" where
  "generateTFDiagsFromHTTPError err d action =
     (let resourceName = (if a_name d \<noteq> [] then a_name d else ''unknown'')
      in case err of
           APIError code msg \<Rightarrow>
             [\<lparr>Severity = diag_Error,
               Summary = [Lit (''Failed to '' @ action @ '' the resource with name: '' @ resourceName)],
               Detail = [Lit (''API Error (Code: '' @ Itoa code @ ''): '' @ msg)]\<rparr>]
         | _ \<Rightarrow>
             [\<lparr>Severity = diag_Error,
               Summary = [Lit (''Failed to '' @ action @ '' the resource with name: '' @ resourceName)],
               Detail = [ErrorOf err]\<rparr>])"

subsection \<open>Read\<close>

definition account_read_attempt ::
  "AccountData \<Rightarrow> Client \<Rightarrow> ResourceAccount option \<times> world
     \<Rightarrow> RetryError option \<times> ResourceAccount option \<times> world" where
  "account_read_attempt d conn = (\<lambda>(account, w).
     case Atoi (a_id d) of
       Inl err \<Rightarrow>
         (Some (NonRetryableError (errorString [Lit (''error converting id ('' @ a_id d @
             '') to integer: ''), ErrorOf err])), account, w)
     | Inr accountID \<Rightarrow>
         let w1 = w @ [CallGetAccountByID accountID]
         in case GetAccountByID conn w accountID of
              Inr fetched \<Rightarrow> (None, Some fetched, w1)
            | Inl (APIError code msg) \<Rightarrow>
                (Some (NonRetryableError (errorString [Lit (''API Error (Code: '' @ Itoa code @
                    ''): '' @ msg)])), None, w1)
            | Inl (errorString etext) \<Rightarrow>
                let accountName = a_name d;
                    w2 = w1 @ [CallGetAccountByName accountName]
                in case GetAccountByName conn w1 accountName of
                     Inr fetched \<Rightarrow> (None, Some fetched, w2)
                   | Inl (APIError code msg) \<Rightarrow>
                       (Some (NonRetryableError (errorString [Lit (''API Error (Code: '' @
                           Itoa code @ ''): '' @ msg)])), None, w2)
                   | Inl (errorString etext') \<Rightarrow>
                       (Some (RetryableError (errorString etext')), None, w2))"

definition flatten_site :: "SharedResourceSite \<Rightarrow> site_block option list" where
  "flatten_site s =
     (if Site_ID s \<noteq> 0 \<or> Site_Name s \<noteq> [] then [Some \<lparr>st_id = Site_ID s, st_name = Site_Name s\<rparr>]
      else [])"

definition flatten_ldap_server :: "AccountSubsetLdapServer \<Rightarrow> ldap_server_block option list" where
  "flatten_ldap_server l =
     (if LdapServer_ID l \<noteq> 0 \<or> LdapServer_Name l \<noteq> []
      then [Some \<lparr>ls_id = LdapServer_ID l, ls_name = LdapServer_Name l\<rparr>]
      else [])"

definition flatten_group :: "AccountsListSubsetGroups \<Rightarrow> group_block" where
  "flatten_group g =
     \<lparr>grp_name = Group_Name g,
      grp_id = Group_ID g,
      grp_site = flatten_site (Group_Site g),
      grp_jss_objects_privileges = JSSObjects (Group_Privileges g),
      grp_jss_settings_privileges = JSSSettings (Group_Privileges g),
      grp_jss_actions_privileges = JSSActions (Group_Privileges g),
      grp_casper_admin_privileges = CasperAdmin (Group_Privileges g),
      grp_casper_remote_privileges = CasperRemote (Group_Privileges g),
      grp_casper_imaging_privileges = CasperImaging (Group_Privileges g),
      grp_recon_privileges = Recon (Group_Privileges g)\<rparr>"

text \<open>The \<open>d.Set\<close> calls of the Read callback, in the order of the source.\<close>

definition account_set_state :: "AccountData \<Rightarrow> ResourceAccount \<Rightarrow> AccountData" where
  "account_set_state d account =
     (let d = d\<lparr>a_name := Name account\<rparr>;
          d = d\<lparr>a_directory_user := DirectoryUser account\<rparr>;
          d = d\<lparr>a_full_name := FullName account\<rparr>;
          d = d\<lparr>a_email := Email account\<rparr>;
          d = d\<lparr>a_enabled := Enabled account\<rparr>;
          d = d\<lparr>a_ldap_server := flatten_ldap_server (LdapServer account)\<rparr>;
          d = d\<lparr>a_force_password_change := ForcePasswordChange account\<rparr>;
          d = d\<lparr>a_access_level := AccessLevel account\<rparr>;
          d = (if a_password d \<noteq> [] then d\<lparr>a_password := Password account\<rparr> else d);
          d = d\<lparr>a_privilege_set := PrivilegeSet account\<rparr>;
          d = d\<lparr>a_site := flatten_site (Site account)\<rparr>;
          d = d\<lparr>a_groups := NewSet (Set_F (a_groups d)) (map flatten_group (Groups account))\<rparr>;
          d = d\<lparr>a_jss_objects_privileges := JSSObjects (Privileges account)\<rparr>;
          d = d\<lparr>a_jss_settings_privileges := JSSSettings (Privileges account)\<rparr>;
          d = d\<lparr>a_jss_actions_privileges := JSSActions (Privileges account)\<rparr>;
          d = d\<lparr>a_casper_admin_privileges := CasperAdmin (Privileges account)\<rparr>;
          d = d\<lparr>a_casper_remote_privileges := CasperRemote (Privileges account)\<rparr>;
          d = d\<lparr>a_casper_imaging_privileges := CasperImaging (Privileges account)\<rparr>;
          d = d\<lparr>a_recon_privileges := Recon (Privileges account)\<rparr>
      in d)"

definition ResourceJamfProAccountRead ::
  "ResourceTimeout \<Rightarrow> AccountData \<Rightarrow> Client option \<Rightarrow> world
     \<Rightarrow> Diagnostic list \<times> AccountData \<times> world" where
  "ResourceJamfProAccountRead tm d meta w =
     (case meta of
        None \<Rightarrow> (diag_Errorf ''error asserting meta as *client.APIClient'', d, w)
      | Some conn \<Rightarrow>
          (case RetryContext (TimeoutRead tm) (account_read_attempt d conn) (None, w) of
             (Some err, account, w') \<Rightarrow> (generateTFDiagsFromHTTPError err d ''read'', d, w')
           | (None, None, w') \<Rightarrow> (nil_dereference, d, w')
           | (None, Some account, w') \<Rightarrow> ([], account_set_state d account, w')))"

text \<open>
  The closure that Create and Update retry to read the resource back: it runs
  the Read callback, which has a retry loop of its own, and asks for another
  run when Read returned any diagnostic. The variable of this closure is the
  resource data, which Read writes to.
\<close>

definition account_readback_attempt ::
  "ResourceTimeout \<Rightarrow> Client option \<Rightarrow> string \<Rightarrow> AccountData \<times> world
     \<Rightarrow> RetryError option \<times> AccountData \<times> world" where
  "account_readback_attempt tm meta msg = (\<lambda>(d, w).
     case ResourceJamfProAccountRead tm d meta w of
       (readDiags, d', w') \<Rightarrow>
         if length readDiags > 0 then (Some (RetryableError (errorString [Lit msg])), d', w')
         else (None, d', w'))"

subsection \<open>Create\<close>

definition account_create_attempt ::
  "type_assertion \<Rightarrow> AccountData \<Rightarrow> Client
     \<Rightarrow> ResponseAccountCreatedAndUpdated option \<times> world
     \<Rightarrow> RetryError option \<times> ResponseAccountCreatedAndUpdated option \<times> world" where
  "account_create_attempt util d jamfProClient = (\<lambda>(createdAccount, w).
     case constructJamfProAccount util d jamfProClient w of
       (Inl err, w1) \<Rightarrow>
         (Some (NonRetryableError (errorString
             [Lit ''failed to construct the account for terraform create: '', ErrorOf err])),
          createdAccount, w1)
     | (Inr account, w1) \<Rightarrow>
         let w2 = w1 @ [CallCreateAccount account]
         in case CreateAccount jamfProClient w1 account of
              Inr created \<Rightarrow> (None, Some created, w2)
            | Inl (APIError code msg) \<Rightarrow>
                (Some (NonRetryableError (errorString [Lit (''API Error (Code: '' @ Itoa code @
                    ''): '' @ msg)])), None, w2)
            | Inl (errorString etext) \<Rightarrow> (Some (RetryableError (errorString etext)), None, w2))"

definition ResourceJamfProAccountCreate ::
  "type_assertion \<Rightarrow> ResourceTimeout \<Rightarrow> AccountData \<Rightarrow> Client option \<Rightarrow> world
     \<Rightarrow> Diagnostic list \<times> AccountData \<times> world" where
  "ResourceJamfProAccountCreate util tm d meta w =
     (case meta of
        None \<Rightarrow> (diag_Errorf ''error asserting meta as *client.APIClient'', d, w)
      | Some jamfProClient \<Rightarrow>
          (case RetryContext (TimeoutCreate tm) (account_create_attempt util d jamfProClient) (None, w) of
             (Some err, createdAccount, w1) \<Rightarrow> (generateTFDiagsFromHTTPError err d ''create'', d, w1)
           | (None, None, w1) \<Rightarrow> (nil_dereference, d, w1)
           | (None, Some createdAccount, w1) \<Rightarrow>
               let d1 = d\<lparr>a_id := Itoa (Created_ID createdAccount)\<rparr>
               in case RetryContext (TimeoutRead tm)
                         (account_readback_attempt tm meta ''failed to read the created resource'')
                         (d1, w1) of
                    (Some err, d2, w2) \<Rightarrow>
                      (generateTFDiagsFromHTTPError err d2 ''update state for'', d2, w2)
                  | (None, d2, w2) \<Rightarrow> ([], d2, w2)))"

subsection \<open>Update\<close>

definition account_update_attempt ::
  "type_assertion \<Rightarrow> AccountData \<Rightarrow> Client \<Rightarrow> unit \<times> world
     \<Rightarrow> RetryError option \<times> unit \<times> world" where
  "account_update_attempt util d jamfProClient = (\<lambda>(u, w).
     case constructJamfProAccount util d jamfProClient w of
       (Inl err, w1) \<Rightarrow>
         (Some (NonRetryableError (errorString
             [Lit ''failed to construct the account for terraform update: '', ErrorOf err])),
          u, w1)
     | (Inr account, w1) \<Rightarrow>
         (case Atoi (a_id d) of
            Inl err \<Rightarrow>
              (Some (NonRetryableError (errorString [Lit (''error converting id ('' @ a_id d @
                  '') to integer: ''), ErrorOf err])), u, w1)
          | Inr accountID \<Rightarrow>
              let w2 = w1 @ [CallUpdateAccountByID accountID account]
              in case UpdateAccountByID jamfProClient w1 accountID account of
                   None \<Rightarrow> (None, u, w2)
                 | Some (APIError code msg) \<Rightarrow>
                     (Some (NonRetryableError (errorString [Lit (''API Error (Code: '' @
                         Itoa code @ ''): '' @ msg)])), u, w2)
                 | Some (errorString etext) \<Rightarrow>
                     let groupName = a_name d;
                         w3 = w2 @ [CallUpdateAccountByName groupName account]
                     in case UpdateAccountByName jamfProClient w2 groupName account of
                          None \<Rightarrow> (None, u, w3)
                        | Some (APIError code msg) \<Rightarrow>
                            (Some (NonRetryableError (errorString [Lit (''API Error (Code: '' @
                                Itoa code @ ''): '' @ msg)])), u, w3)
                        | Some (errorString etext') \<Rightarrow>
                            (Some (RetryableError (errorString etext')), u, w3)))"

definition ResourceJamfProAccountUpdate ::
  "type_assertion \<Rightarrow> ResourceTimeout \<Rightarrow> AccountData \<Rightarrow> Client option \<Rightarrow> world
     \<Rightarrow> Diagnostic list \<times> AccountData \<times> world" where
  "ResourceJamfProAccountUpdate util tm d meta w =
     (case meta of
        None \<Rightarrow> (diag_Errorf ''error asserting meta as *client.APIClient'', d, w)
      | Some jamfProClient \<Rightarrow>
          (case RetryContext (TimeoutUpdate tm) (account_update_attempt util d jamfProClient)
                  ((), w) of
             (Some err, u, w1) \<Rightarrow> (generateTFDiagsFromHTTPError err d ''update'', d, w1)
           | (None, u, w1) \<Rightarrow>
               (case RetryContext (TimeoutRead tm)
                       (account_readback_attempt tm meta
                          ''failed to update the Terraform state for the updated resource'')
                       (d, w1) of
                  (Some err, d2, w2) \<Rightarrow> (generateTFDiagsFromHTTPError err d2 ''update'', d2, w2)
                | (None, d2, w2) \<Rightarrow> ([], d2, w2))))"

subsection \<open>Delete\<close>

definition account_delete_attempt ::
  "AccountData \<Rightarrow> Client \<Rightarrow> unit \<times> world \<Rightarrow> RetryError option \<times> unit \<times> world" where
  "account_delete_attempt d conn = (\<lambda>(u, w).
     case Atoi (a_id d) of
       Inl convertErr \<Rightarrow>
         (Some (NonRetryableError (errorString [Lit ''failed to parse dock item ID: '',
             ErrorOf convertErr])), u, w)
     | Inr accountID \<Rightarrow>
         let w1 = w @ [CallDeleteAccountByID accountID]
         in case DeleteAccountByID conn w accountID of
              None \<Rightarrow> (None, u, w1)
            | Some apiErr \<Rightarrow>
                let accountName = a_name d;
                    w2 = w1 @ [CallDeleteAccountByName accountName]
                in case DeleteAccountByName conn w1 accountName of
                     None \<Rightarrow> (None, u, w2)
                   | Some apiErr' \<Rightarrow> (Some (RetryableError apiErr'), u, w2))"

definition ResourceJamfProAccountDelete ::
  "ResourceTimeout \<Rightarrow> AccountData \<Rightarrow> Client option \<Rightarrow> world
     \<Rightarrow> Diagnostic list \<times> AccountData \<times> world" where
  "ResourceJamfProAccountDelete tm d meta w =
     (case meta of
        None \<Rightarrow> (diag_Errorf ''error asserting meta as *client.APIClient'', d, w)
      | Some conn \<Rightarrow>
          (case RetryContext (TimeoutDelete tm) (account_delete_attempt d conn) ((), w) of
             (Some err, u, w1) \<Rightarrow> (generateTFDiagsFromHTTPError err d ''delete'', d, w1)
           | (None, u, w1) \<Rightarrow> ([], d\<lparr>a_id := ''''\<rparr>, w1)))"


section \<open>Example clients and states\<close>

text \<open>
  Concrete inputs for the closed theorems below. \<open>unreachable_client\<close> is a
  remote that answers every call with a transport error.
\<close>

definition connection_refused :: go_error where
  "connection_refused = errorString [Lit ''connection refused'']"

definition not_found :: go_error where
  "not_found = APIError 404 ''Not Found''"

definition unreachable_client :: Client where
  "unreachable_client =
     \<lparr>GetAccounts = (\<lambda>w. Inl connection_refused),
      CreateAccount = (\<lambda>w account. Inl connection_refused),
      GetAccountByID = (\<lambda>w accountID. Inl connection_refused),
      GetAccountByName = (\<lambda>w name. Inl connection_refused),
      UpdateAccountByID = (\<lambda>w accountID account. Some connection_refused),
      UpdateAccountByName = (\<lambda>w name account. Some connection_refused),
      DeleteAccountByID = (\<lambda>w accountID. Some connection_refused),
      DeleteAccountByName = (\<lambda>w name. Some connection_refused),
      CreateDepartment = (\<lambda>w department. Inl connection_refused),
      GetDepartmentByID = (\<lambda>w resourceID. Inl connection_refused),
      UpdateDepartmentByID = (\<lambda>w resourceID department. Some connection_refused),
      UpdateDepartmentByName = (\<lambda>w name department. Some connection_refused),
      DeleteDepartmentByID = (\<lambda>w resourceID. Some connection_refused),
      DeleteDepartmentByName = (\<lambda>w name. Some connection_refused)\<rparr>"

definition example_timeouts :: ResourceTimeout where
  "example_timeouts = \<lparr>TimeoutCreate = 2, TimeoutRead = 2, TimeoutUpdate = 2, TimeoutDelete = 2\<rparr>"

definition example_department :: DepartmentData where
  "example_department = \<lparr>dep_id = ''99'', dep_name = ''Engineering''\<rparr>"

text \<open>A hash function for the set of groups: any function will do.\<close>

definition example_hash :: "group_block \<Rightarrow> int" where
  "example_hash b = int (length (grp_name b))"

definition example_account_data :: AccountData where
  "example_account_data =
     \<lparr>a_id = ''42'', a_name = ''alice'', a_directory_user = False, a_full_name = ''Alice A'',
      a_email = ''alice@example.com'', a_email_address = '''', a_enabled = ''Enabled'',
      a_ldap_server = [], a_force_password_change = False, a_access_level = ''Full Access'',
      a_password = '''', a_privilege_set = ''Administrator'', a_site = [],
      a_groups = \<lparr>Set_F = example_hash, Set_m = []\<rparr>,
      a_jss_objects_privileges = [], a_jss_settings_privileges = [],
      a_jss_actions_privileges = [], a_casper_admin_privileges = [],
      a_casper_remote_privileges = [], a_casper_imaging_privileges = [],
      a_recon_privileges = []\<rparr>"

text \<open>The same resources before their creation: no identifier yet.\<close>

definition new_department :: DepartmentData where
  "new_department = example_department\<lparr>dep_id := []\<rparr>"

definition new_account_data :: AccountData where
  "new_account_data = example_account_data\<lparr>a_id := []\<rparr>"

text \<open>An account state whose identifier is not a number, and one that holds a password.\<close>

definition bad_id_account_data :: AccountData where
  "bad_id_account_data = example_account_data\<lparr>a_id := ''abc''\<rparr>"

definition password_account_data :: AccountData where
  "password_account_data = example_account_data\<lparr>a_password := ''old''\<rparr>"

definition example_account :: ResourceAccount where
  "example_account =
     zero_Account\<lparr>Name := ''alice'', FullName := ''Alice A'', Enabled := ''Enabled'',
       AccessLevel := ''Full Access'', Password := ''secret''\<rparr>"

definition identity_assertion :: type_assertion where
  "identity_assertion =
     \<lparr>GetStringFromInterface = (\<lambda>s. s), GetIntFromInterface = (\<lambda>i. i),
      GetStringSliceFromInterface = (\<lambda>xs. xs)\<rparr>"

text \<open>A remote on which deleting by ID fails and deleting by name works.\<close>

definition delete_by_name_client :: Client where
  "delete_by_name_client =
     unreachable_client\<lparr>DeleteAccountByName := (\<lambda>w name. None),
                        DeleteDepartmentByName := (\<lambda>w name. None)\<rparr>"

text \<open>A remote on which deleting by ID works.\<close>

definition delete_by_id_client :: Client where
  "delete_by_id_client =
     unreachable_client\<lparr>DeleteAccountByID := (\<lambda>w accountID. None),
                        DeleteDepartmentByID := (\<lambda>w resourceID. None)\<rparr>"


text \<open>A remote that lists no groups and is unreachable for every other call.\<close>

definition accounts_listing_client :: Client where
  "accounts_listing_client =
     unreachable_client\<lparr>GetAccounts := (\<lambda>w. Inr \<lparr>List_Groups = []\<rparr>)\<rparr>"

text \<open>A remote that rejects the creation of an account with a structured error.\<close>

definition create_rejected_client :: Client where
  "create_rejected_client =
     accounts_listing_client\<lparr>CreateAccount := (\<lambda>w account. Inl (APIError 409 ''Conflict''))\<rparr>"

text \<open>A remote that creates the account with ID 42 and cannot be read afterwards.\<close>

definition create_only_client :: Client where
  "create_only_client =
     accounts_listing_client
       \<lparr>CreateAccount := (\<lambda>w account. Inr \<lparr>Created_ID = 42\<rparr>),
        CreateDepartment := (\<lambda>w department. Inr \<lparr>Response_ID = ''42''\<rparr>)\<rparr>"

text \<open>
  A remote whose first answer to the creation of a department is a transport
  error; from the second call on it creates the department, and it can be read.
\<close>

definition flaky_create_client :: Client where
  "flaky_create_client =
     unreachable_client
       \<lparr>CreateDepartment :=
          (\<lambda>w department. if w = [] then Inl connection_refused else Inr \<lparr>Response_ID = ''42''\<rparr>),
        GetDepartmentByID := (\<lambda>w resourceID. Inr (Some \<lparr>Department_Name = ''Engineering''\<rparr>))\<rparr>"

text \<open>
  A remote that answers the fetch by ID with a structured error and knows the
  account by its name.
\<close>

definition id_not_found_client :: Client where
  "id_not_found_client =
     unreachable_client
       \<lparr>GetAccountByID := (\<lambda>w accountID. Inl not_found),
        GetAccountByName := (\<lambda>w name. Inr example_account)\<rparr>"

text \<open>A remote on which the fetch by ID meets a transport error and the fetch by name works.\<close>

definition name_lookup_client :: Client where
  "name_lookup_client =
     unreachable_client\<lparr>GetAccountByName := (\<lambda>w name. Inr example_account)\<rparr>"

text \<open>A remote on which the fetch by ID works.\<close>

definition id_lookup_client :: Client where
  "id_lookup_client =
     unreachable_client
       \<lparr>GetAccountByID := (\<lambda>w accountID. Inr example_account),
        GetDepartmentByID := (\<lambda>w resourceID. Inr (Some \<lparr>Department_Name = ''Engineering''\<rparr>))\<rparr>"

text \<open>Two remotes that differ only in the ID they list for the group \<open>admins\<close>.\<close>

definition admins_group :: "int \<Rightarrow> AccountsListSubsetGroups" where
  "admins_group groupID =
     \<lparr>Group_ID = groupID, Group_Name = ''admins'', Group_Site = zero_Site,
      Group_Privileges = zero_Privileges\<rparr>"

definition admins_client :: "int \<Rightarrow> Client" where
  "admins_client groupID =
     unreachable_client\<lparr>GetAccounts := (\<lambda>w. Inr \<lparr>List_Groups = [admins_group groupID]\<rparr>)\<rparr>"

definition admins_block :: group_block where
  "admins_block =
     \<lparr>grp_name = ''admins'', grp_id = 0, grp_site = [], grp_jss_objects_privileges = [],
      grp_jss_settings_privileges = [], grp_jss_actions_privileges = [],
      grp_casper_admin_privileges = [], grp_casper_remote_privileges = [],
      grp_casper_imaging_privileges = [], grp_recon_privileges = []\<rparr>"

text \<open>
  A configuration that puts the account into the group \<open>admins\<close>, and the
  account the constructor builds from \<open>example_account_data\<close> with the
  identity for the type assertion helpers.
\<close>

definition grouped_account_data :: AccountData where
  "grouped_account_data =
     example_account_data\<lparr>a_groups := \<lparr>Set_F = example_hash, Set_m = [(''6'', admins_block)]\<rparr>\<rparr>"

definition constructed_account :: ResourceAccount where
  "constructed_account =
     zero_Account\<lparr>Name := ''alice'', FullName := ''Alice A'', Email := ''alice@example.com'',
       Enabled := ''Enabled'', AccessLevel := ''Full Access'', PrivilegeSet := ''Administrator''\<rparr>"

text \<open>A remote that answers the fetch of a department with no department and no error.\<close>

definition department_gone_client :: Client where
  "department_gone_client =
     unreachable_client\<lparr>GetDepartmentByID := (\<lambda>w resourceID. Inr None)\<rparr>"

text \<open>
  An account in the groups \<open>admins\<close> and \<open>ops\<close>, in this order, the second
  with a site, and a remote that knows it by its ID. Under \<open>example_hash\<close>
  the code of \<open>ops\<close> is 3 and the code of \<open>admins\<close> is 6.
\<close>

definition ops_group :: AccountsListSubsetGroups where
  "ops_group =
     \<lparr>Group_ID = 2, Group_Name = ''ops'', Group_Site = \<lparr>Site_ID = 7, Site_Name = ''HQ''\<rparr>,
      Group_Privileges = zero_Privileges\<rparr>"

definition ops_block :: group_block where
  "ops_block =
     \<lparr>grp_name = ''ops'', grp_id = 2, grp_site = [Some \<lparr>st_id = 7, st_name = ''HQ''\<rparr>],
      grp_jss_objects_privileges = [], grp_jss_settings_privileges = [],
      grp_jss_actions_privileges = [], grp_casper_admin_privileges = [],
      grp_casper_remote_privileges = [], grp_casper_imaging_privileges = [],
      grp_recon_privileges = []\<rparr>"

definition grouped_account :: ResourceAccount where
  "grouped_account = example_account\<lparr>Groups := [admins_group 1, ops_group]\<rparr>"

definition groups_lookup_client :: Client where
  "groups_lookup_client =
     unreachable_client\<lparr>GetAccountByID := (\<lambda>w accountID. Inr grouped_account)\<rparr>"

section \<open>Notions used in the properties\<close>

text \<open>The log \<open>w'\<close> extends the log \<open>w\<close>: events are only ever added at its end.\<close>

definition extends :: "world \<Rightarrow> world \<Rightarrow> bool" where
  "extends w w' = (\<exists>ws. w' = w @ ws)"

text \<open>The number of calls of \<open>CreateAccount\<close> in a log.\<close>

fun is_CreateAccount :: "event \<Rightarrow> bool" where
  "is_CreateAccount (CallCreateAccount account) = True"
| "is_CreateAccount call = False"

definition create_calls :: "world \<Rightarrow> nat" where
  "create_calls w = length (filter is_CreateAccount w)"


section \<open>Facts about the retry loop and the callbacks\<close>

lemma retry_loop_0 [simp]: "retry_loop 0 f e s = (Some e, s)"
  by (cases s) (simp add: retry_loop.simps)

lemma retry_loop_Suc [simp]:
  "retry_loop (Suc n) f e (v, w) =
     (case f (v, w) of
        (None, s') \<Rightarrow> (None, s')
      | (Some rerr, v', w') \<Rightarrow>
          if Retryable rerr
          then retry_loop (n - (now w' - now w)) f (Err rerr) (v', w' @ [RetryWait])
          else (Some (Err rerr), v', w'))"
  by (subst retry_loop.simps) (simp split: prod.split option.split)

lemmas example_defs =
  example_timeouts_def example_account_data_def example_department_def example_account_def
  new_department_def new_account_data_def bad_id_account_data_def password_account_data_def
  identity_assertion_def unreachable_client_def accounts_listing_client_def
  create_only_client_def create_rejected_client_def flaky_create_client_def
  id_not_found_client_def name_lookup_client_def id_lookup_client_def
  delete_by_name_client_def delete_by_id_client_def connection_refused_def not_found_def
  admins_client_def admins_group_def admins_block_def grouped_account_data_def
  constructed_account_def department_gone_client_def ops_group_def ops_block_def
  grouped_account_def groups_lookup_client_def

lemmas callback_defs =
  RetryContext_def RetryableError_def NonRetryableError_def numeral_2_eq_2 Let_def now_def
  account_create_attempt_def account_read_attempt_def account_update_attempt_def
  account_delete_attempt_def account_readback_attempt_def
  department_read_attempt_def department_update_attempt_def department_delete_attempt_def
  constructJamfProAccount_def account_fields_def account_privileges_def Set_List_def
  zero_Account_def zero_Site_def zero_LdapServer_def zero_Privileges_def

lemma Atoi_42: "Atoi ''42'' = Inr 42"
  by (simp add: Atoi_def is_digit_def maxUint64_def)

lemma Atoi_99: "Atoi ''99'' = Inr 99"
  by (simp add: Atoi_def is_digit_def maxUint64_def)

lemma Atoi_abc: "Atoi ''abc'' = Inl (syntaxError ''Atoi'' ''abc'')"
  by (simp add: Atoi_def is_digit_def)

lemma Itoa_42: "Itoa 42 = ''42''"
  by code_simp

text \<open>
  A property that every run of the closure and every wait preserve holds when
  the loop ends.
\<close>

lemma retry_loop_invariant:
  assumes step: "\<And>s r s'. P s \<Longrightarrow> f s = (r, s') \<Longrightarrow> P s'"
    and wait: "\<And>v w. P (v, w) \<Longrightarrow> P (v, w @ [RetryWait])"
    and init: "P s"
  shows "P (snd (retry_loop n f e s))"
  using init
proof (induction n arbitrary: e s rule: less_induct)
  case (less n)
  obtain v w where s: "s = (v, w)" by (cases s)
  show ?case
  proof (cases n)
    case 0
    with less.prems show ?thesis by simp
  next
    case (Suc m)
    obtain r s' where fs: "f (v, w) = (r, s')" by (cases "f (v, w)")
    with less.prems step s have P': "P s'" by blast
    obtain v' w' where s': "s' = (v', w')" by (cases s')
    show ?thesis
    proof (cases r)
      case None
      with fs P' s Suc show ?thesis by simp
    next
      case (Some rerr)
      have "P (snd (retry_loop (m - (now w' - now w)) f (Err rerr) (v', w' @ [RetryWait])))"
        using less.IH[of "m - (now w' - now w)"] Suc wait P' s' by simp
      with Some fs P' s s' Suc show ?thesis by simp
    qed
  qed
qed

lemma RetryContext_invariant:
  assumes "\<And>s r s'. P s \<Longrightarrow> f s = (r, s') \<Longrightarrow> P s'"
    and "\<And>v w. P (v, w) \<Longrightarrow> P (v, w @ [RetryWait])"
    and "P s"
  shows "P (snd (RetryContext n f s))"
  unfolding RetryContext_def using assms by (rule retry_loop_invariant)

text \<open>The same from the state the first run leaves.\<close>

lemma retry_loop_first:
  assumes step: "\<And>s r s'. P s \<Longrightarrow> f s = (r, s') \<Longrightarrow> P s'"
    and wait: "\<And>v w. P (v, w) \<Longrightarrow> P (v, w @ [RetryWait])"
    and first: "P (snd (f (v, w)))"
  shows "P (snd (retry_loop (Suc n) f e (v, w)))"
proof -
  obtain r v' w' where fs: "f (v, w) = (r, v', w')" by (cases "f (v, w)")
  with first have P': "P (v', w')" by simp
  then have "P (v', w' @ [RetryWait])" by (rule wait)
  then have "P (snd (retry_loop k f e' (v', w' @ [RetryWait])))" for k e'
    using step wait by (rule retry_loop_invariant[rotated 2])
  with fs P' show ?thesis by (cases r) auto
qed

text \<open>When the loop ends in an error, every run it made returned an error.\<close>

lemma retry_loop_failure_invariant:
  assumes step: "\<And>s r s'. P s \<Longrightarrow> f s = (Some r, s') \<Longrightarrow> P s'"
    and wait: "\<And>v w. P (v, w) \<Longrightarrow> P (v, w @ [RetryWait])"
    and init: "P s" and res: "retry_loop n f e s = (Some e', s')"
  shows "P s'"
  using init res
proof (induction n arbitrary: e s rule: less_induct)
  case (less n)
  obtain v w where s: "s = (v, w)" by (cases s)
  show ?case
  proof (cases n)
    case 0
    with less.prems show ?thesis by simp
  next
    case (Suc m)
    obtain r v1 w1 where fs: "f (v, w) = (r, v1, w1)" by (cases "f (v, w)")
    show ?thesis
    proof (cases r)
      case None
      with fs less.prems s Suc show ?thesis by simp
    next
      case (Some rerr)
      with fs less.prems(1) step s have P1: "P (v1, w1)" by blast
      show ?thesis
      proof (cases "Retryable rerr")
        case True
        with Some fs less.prems(2) s Suc
        have "retry_loop (m - (now w1 - now w)) f (Err rerr) (v1, w1 @ [RetryWait]) = (Some e', s')"
          by simp
        moreover have "P (v1, w1 @ [RetryWait])" using P1 by (rule wait)
        ultimately show ?thesis
          using less.IH[of "m - (now w1 - now w)"] Suc by simp
      next
        case False
        with Some fs less.prems(2) s Suc have "s' = (v1, w1)" by simp
        with P1 show ?thesis by simp
      qed
    qed
  qed
qed

text \<open>When the loop ends without an error, its last run returned \<open>nil\<close>.\<close>

lemma retry_loop_success:
  assumes "retry_loop n f e s = (None, s')"
  shows "\<exists>s0. f s0 = (None, s')"
  using assms
proof (induction n arbitrary: e s rule: less_induct)
  case (less n)
  obtain v w where s: "s = (v, w)" by (cases s)
  show ?case
  proof (cases n)
    case 0
    with less.prems show ?thesis by simp
  next
    case (Suc m)
    obtain r v1 w1 where fs: "f (v, w) = (r, v1, w1)" by (cases "f (v, w)")
    show ?thesis
    proof (cases r)
      case None
      with fs less.prems s Suc show ?thesis by auto
    next
      case (Some rerr)
      with fs less.prems s Suc
      have "retry_loop (m - (now w1 - now w)) f (Err rerr) (v1, w1 @ [RetryWait]) = (None, s')"
        by (auto split: if_splits)
      then show ?thesis
        using less.IH[of "m - (now w1 - now w)"] Suc by simp
    qed
  qed
qed

lemma extends_refl: "extends w w"
  by (simp add: extends_def)

lemma extends_append: "extends w w1 \<Longrightarrow> extends w (w1 @ ws)"
  by (auto simp: extends_def)

lemma generateTFDiags_nonempty: "generateTFDiagsFromHTTPError err d action \<noteq> []"
  by (cases err) (simp_all add: generateTFDiagsFromHTTPError_def Let_def)

subsection \<open>Departments\<close>

lemma xml_department_ok:
  "xml_MarshalIndent (reflect_Department dep) [] ''  '' =
     Inr (join_lines [] [''<ResourceDepartment>'',
            ''  <name>'' @ EscapeText (Department_Name dep) @ ''</name>'',
            ''</ResourceDepartment>''])"
  by (simp add: xml_MarshalIndent_def reflect_Department_def indentation_def)

lemma constructJamfProDepartment_eq:
  "constructJamfProDepartment d = Inr \<lparr>Department_Name = dep_name d\<rparr>"
  by (simp add: constructJamfProDepartment_def xml_department_ok)

lemma department_read_attempt_extends:
  "department_read_attempt conn i (v, w1) = (r, v', w2) \<Longrightarrow> extends w w1 \<Longrightarrow> extends w w2"
  by (auto simp: department_read_attempt_def extends_append split: sum.splits)

lemma department_read_extends:
  "extends w (snd (snd (ResourceJamfProDepartmentsRead tm d meta w)))"
proof (cases meta)
  case None
  then show ?thesis by (simp add: ResourceJamfProDepartmentsRead_def extends_refl)
next
  case (Some conn)
  have "(\<lambda>(v, w'). extends w w')
          (snd (RetryContext (TimeoutRead tm) (department_read_attempt conn (dep_id d)) (None, w)))"
    by (rule RetryContext_invariant)
       (auto simp: extends_refl extends_append dest: department_read_attempt_extends)
  with Some show ?thesis
    by (auto simp: ResourceJamfProDepartmentsRead_def Let_def split: prod.splits option.splits)
qed

lemma department_update_attempt_first:
  "\<exists>ws. snd (snd (department_update_attempt conn i n dep (u, w)))
      = w @ CallUpdateDepartmentByID i dep # ws"
  by (auto simp: department_update_attempt_def Let_def split: option.splits)

lemma department_read_failure_clears_id:
  "fst (ResourceJamfProDepartmentsRead tm d (Some conn) w) \<noteq> [] \<Longrightarrow>
   dep_id (fst (snd (ResourceJamfProDepartmentsRead tm d (Some conn) w))) = []"
  by (simp add: ResourceJamfProDepartmentsRead_def Let_def split: option.splits prod.splits)

subsection \<open>Accounts\<close>

lemma account_read_keeps_id:
  "a_id (fst (snd (ResourceJamfProAccountRead tm d meta w))) = a_id d"
  by (simp add: ResourceJamfProAccountRead_def account_set_state_def Let_def
      split: option.split prod.split)

lemma account_read_failure_keeps_state:
  "fst (ResourceJamfProAccountRead tm d meta w) \<noteq> [] \<Longrightarrow>
   fst (snd (ResourceJamfProAccountRead tm d meta w)) = d"
  by (simp add: ResourceJamfProAccountRead_def split: option.splits prod.splits)

text \<open>When the loop that reads the resource back gives up, no Read has touched the state.\<close>

lemma account_readback_failure_keeps_state:
  assumes "RetryContext n (account_readback_attempt tm meta msg) (d, w) = (Some err, d2, w2)"
  shows "d2 = d"
proof -
  have step: "fst s' = d"
    if P: "fst s = d" and f: "account_readback_attempt tm meta msg s = (Some r, s')"
    for s r s'
  proof -
    obtain w0 where s: "s = (d, w0)" using P by (cases s) auto
    obtain diags d' w' where rd: "ResourceJamfProAccountRead tm d meta w0 = (diags, d', w')"
      by (cases "ResourceJamfProAccountRead tm d meta w0") auto
    from f s rd have ne: "diags \<noteq> []" and s': "s' = (d', w')"
      by (auto simp: account_readback_attempt_def split: if_splits)
    from account_read_failure_keeps_state[of tm d meta w0] rd ne have "d' = d" by simp
    with s' show ?thesis by simp
  qed
  have loop: "retry_loop n (account_readback_attempt tm meta msg) TimeoutError (d, w)
      = (Some err, d2, w2)"
    using assms by (simp add: RetryContext_def)
  have "fst (d2, w2) = d"
    by (rule retry_loop_failure_invariant[where P = "\<lambda>s. fst s = d", OF step _ _ loop]) simp_all
  then show ?thesis by simp
qed


lemma account_create_success_assigns:
  assumes "RetryContext n (account_create_attempt util d cl) (None, w) = (None, v, w')"
  shows "v \<noteq> None"
proof -
  from assms have "retry_loop n (account_create_attempt util d cl) TimeoutError (None, w)
      = (None, v, w')"
    by (simp add: RetryContext_def)
  from retry_loop_success[OF this]
  obtain s0 where "account_create_attempt util d cl s0 = (None, v, w')" ..
  then show ?thesis
    by (cases s0)
       (auto simp: account_create_attempt_def Let_def split: sum.splits go_error.splits prod.splits)
qed


section \<open>Delete clears the identifier\<close>

text \<open>
  Claim C4. Every Delete that succeeds, that is, returns no diagnostic, whether
  the remote delete by ID or the fallback by name went through, leaves the
  empty string as the identifier of the resource state. This holds for the
  account and for the department callback.
\<close>

theorem delete_success_clears_identifier:
  "(fst (ResourceJamfProAccountDelete tm d meta w) = [] \<longrightarrow>
      a_id (fst (snd (ResourceJamfProAccountDelete tm d meta w))) = []) \<and>
   (fst (ResourceJamfProDepartmentsDelete tm dd meta w) = [] \<longrightarrow>
      dep_id (fst (snd (ResourceJamfProDepartmentsDelete tm dd meta w))) = [])"
  by (simp add: ResourceJamfProAccountDelete_def ResourceJamfProDepartmentsDelete_def
        diag_Errorf_def diag_FromErr_def generateTFDiags_nonempty Let_def
      split: option.split prod.split)

text \<open>
  An account deleted through the fallback by name, after the delete by ID met
  a transport error, and a department deleted by ID.
\<close>

theorem delete_success_clears_identifier_witness:
  "fst (ResourceJamfProAccountDelete example_timeouts example_account_data
          (Some delete_by_name_client) []) = [] \<and>
   snd (snd (ResourceJamfProAccountDelete example_timeouts example_account_data
          (Some delete_by_name_client) []))
     = [CallDeleteAccountByID 42, CallDeleteAccountByName ''alice''] \<and>
   a_id (fst (snd (ResourceJamfProAccountDelete example_timeouts example_account_data
          (Some delete_by_name_client) []))) = [] \<and>
   fst (ResourceJamfProDepartmentsDelete example_timeouts example_department
          (Some delete_by_id_client) []) = [] \<and>
   dep_id (fst (snd (ResourceJamfProDepartmentsDelete example_timeouts example_department
          (Some delete_by_id_client) []))) = []"
proof -
  have a: "fst (ResourceJamfProAccountDelete example_timeouts example_account_data
          (Some delete_by_name_client) []) = []"
    by (simp add: ResourceJamfProAccountDelete_def example_defs callback_defs Atoi_42)
  have w: "snd (snd (ResourceJamfProAccountDelete example_timeouts example_account_data
          (Some delete_by_name_client) []))
     = [CallDeleteAccountByID 42, CallDeleteAccountByName ''alice'']"
    by (simp add: ResourceJamfProAccountDelete_def example_defs callback_defs Atoi_42)
  have b: "fst (ResourceJamfProDepartmentsDelete example_timeouts example_department
          (Some delete_by_id_client) []) = []"
    by (simp add: ResourceJamfProDepartmentsDelete_def example_defs callback_defs)
  note inst = delete_success_clears_identifier
    [of example_timeouts example_account_data "Some delete_by_name_client" "[]" example_department]
  note inst' = delete_success_clears_identifier
    [of example_timeouts example_account_data "Some delete_by_id_client" "[]" example_department]
  from inst a have a': "a_id (fst (snd (ResourceJamfProAccountDelete example_timeouts
          example_account_data (Some delete_by_name_client) []))) = []"
    by blast
  from inst' b have b': "dep_id (fst (snd (ResourceJamfProDepartmentsDelete example_timeouts
          example_department (Some delete_by_id_client) []))) = []"
    by blast
  from a w a' b b' show ?thesis by blast
qed

section \<open>A failed Update or Delete leaves the state as it was\<close>

text \<open>
  Claim C5. When the retry loop of an Update or of a Delete ends in an error,
  which is what happens when the operation by ID and the fallback by name have
  failed until the retries were exhausted, the callback returns a diagnostic
  and the resource state, the identifier included, is exactly what it was
  before the call. This holds for the four callbacks: account Update, account
  Delete, department Update and department Delete.
\<close>

theorem update_delete_failure_keeps_state:
  "(RetryContext (TimeoutUpdate tm) (account_update_attempt util d cl) ((), w)
      = (Some err1, (), w1) \<longrightarrow>
      fst (ResourceJamfProAccountUpdate util tm d (Some cl) w) \<noteq> [] \<and>
      fst (snd (ResourceJamfProAccountUpdate util tm d (Some cl) w)) = d) \<and>
   (RetryContext (TimeoutDelete tm) (account_delete_attempt d cl) ((), w)
      = (Some err2, (), w2) \<longrightarrow>
      fst (ResourceJamfProAccountDelete tm d (Some cl) w) \<noteq> [] \<and>
      fst (snd (ResourceJamfProAccountDelete tm d (Some cl) w)) = d) \<and>
   (RetryContext (TimeoutUpdate tm)
        (department_update_attempt cl (dep_id dd) (dep_name dd) \<lparr>Department_Name = dep_name dd\<rparr>)
        ((), w)
      = (Some err3, (), w3) \<longrightarrow>
      fst (ResourceJamfProDepartmentsUpdate tm dd (Some cl) w) \<noteq> [] \<and>
      fst (snd (ResourceJamfProDepartmentsUpdate tm dd (Some cl) w)) = dd) \<and>
   (RetryContext (TimeoutDelete tm) (department_delete_attempt cl (dep_id dd) (dep_name dd))
        ((), w)
      = (Some err4, (), w4) \<longrightarrow>
      fst (ResourceJamfProDepartmentsDelete tm dd (Some cl) w) \<noteq> [] \<and>
      fst (snd (ResourceJamfProDepartmentsDelete tm dd (Some cl) w)) = dd)"
  by (simp add: ResourceJamfProAccountUpdate_def ResourceJamfProAccountDelete_def
        ResourceJamfProDepartmentsUpdate_def ResourceJamfProDepartmentsDelete_def
        constructJamfProDepartment_eq generateTFDiags_nonempty diag_FromErr_def Let_def)

text \<open>
  A remote on which every update and delete call fails, by ID and by name, at
  each of the two attempts the timeout leaves room for: the four callbacks
  return a diagnostic and the state they were given.
\<close>

theorem update_delete_failure_keeps_state_witness:
  "fst (ResourceJamfProAccountUpdate identity_assertion example_timeouts example_account_data
          (Some accounts_listing_client) []) \<noteq> [] \<and>
   fst (snd (ResourceJamfProAccountUpdate identity_assertion example_timeouts example_account_data
          (Some accounts_listing_client) [])) = example_account_data \<and>
   fst (ResourceJamfProAccountDelete example_timeouts example_account_data
          (Some accounts_listing_client) []) \<noteq> [] \<and>
   fst (snd (ResourceJamfProAccountDelete example_timeouts example_account_data
          (Some accounts_listing_client) [])) = example_account_data \<and>
   fst (ResourceJamfProDepartmentsUpdate example_timeouts example_department
          (Some unreachable_client) []) \<noteq> [] \<and>
   fst (snd (ResourceJamfProDepartmentsUpdate example_timeouts example_department
          (Some unreachable_client) [])) = example_department \<and>
   fst (ResourceJamfProDepartmentsDelete example_timeouts example_department
          (Some unreachable_client) []) \<noteq> [] \<and>
   fst (snd (ResourceJamfProDepartmentsDelete example_timeouts example_department
          (Some unreachable_client) [])) = example_department"
proof -
  let ?au = "RetryContext (TimeoutUpdate example_timeouts)
      (account_update_attempt identity_assertion example_account_data accounts_listing_client)
      ((), [])"
  let ?ad = "RetryContext (TimeoutDelete example_timeouts)
      (account_delete_attempt example_account_data accounts_listing_client) ((), [])"
  let ?du = "RetryContext (TimeoutUpdate example_timeouts)
      (department_update_attempt unreachable_client (dep_id example_department)
         (dep_name example_department) \<lparr>Department_Name = dep_name example_department\<rparr>)
      ((), [])"
  let ?dd = "RetryContext (TimeoutDelete example_timeouts)
      (department_delete_attempt unreachable_client (dep_id example_department)
         (dep_name example_department)) ((), [])"
  have h1: "?au = (Some connection_refused, (), snd (snd ?au))"
    by (simp add: example_defs callback_defs Atoi_42)
  have h2: "?ad = (Some connection_refused, (), snd (snd ?ad))"
    by (simp add: example_defs callback_defs Atoi_42)
  have h3: "?du = (Some (errorString [Lit (''failed to update department '' @ [CHR 0x27] @
        ''Engineering'' @ [CHR 0x27] @ '' by ID '' @ [CHR 0x27] @ ''99'' @ [CHR 0x27] @
        '' and by name due to errors: ''), ErrorOf connection_refused, Lit '', '',
        ErrorOf connection_refused]), (), snd (snd ?du))"
    by (simp add: example_defs callback_defs)
  have h4: "?dd = (Some (errorString [Lit (''failed to delete department '' @ [CHR 0x27] @
        ''Engineering'' @ [CHR 0x27] @ '' by ID '' @ [CHR 0x27] @ ''99'' @ [CHR 0x27] @
        '' and by name due to errors: ''), ErrorOf connection_refused, Lit '', '',
        ErrorOf connection_refused]), (), snd (snd ?dd))"
    by (simp add: example_defs callback_defs)
  note inst = update_delete_failure_keeps_state
    [where tm = example_timeouts and util = identity_assertion and d = example_account_data
       and dd = example_department and w = "[]"]
  from inst[where cl = accounts_listing_client] h1 h2
  have a: "fst (ResourceJamfProAccountUpdate identity_assertion example_timeouts
          example_account_data (Some accounts_listing_client) []) \<noteq> [] \<and>
      fst (snd (ResourceJamfProAccountUpdate identity_assertion example_timeouts
          example_account_data (Some accounts_listing_client) [])) = example_account_data \<and>
      fst (ResourceJamfProAccountDelete example_timeouts example_account_data
          (Some accounts_listing_client) []) \<noteq> [] \<and>
      fst (snd (ResourceJamfProAccountDelete example_timeouts example_account_data
          (Some accounts_listing_client) [])) = example_account_data"
    by blast
  from inst[where cl = unreachable_client] h3 h4
  have b: "fst (ResourceJamfProDepartmentsUpdate example_timeouts example_department
          (Some unreachable_client) []) \<noteq> [] \<and>
      fst (snd (ResourceJamfProDepartmentsUpdate example_timeouts example_department
          (Some unreachable_client) [])) = example_department \<and>
      fst (ResourceJamfProDepartmentsDelete example_timeouts example_department
          (Some unreachable_client) []) \<noteq> [] \<and>
      fst (snd (ResourceJamfProDepartmentsDelete example_timeouts example_department
          (Some unreachable_client) [])) = example_department"
    by blast
  from a b show ?thesis by blast
qed

section \<open>The department constructor cannot fail\<close>

text \<open>
  Claim C9. For every configuration the department constructor succeeds: the
  struct it marshals to XML has one string field, which the marshaller always
  writes, so the error branch of the constructor is never taken. The
  construction-failure returns of the department Create and Update are
  therefore never taken either: Create always goes on to the remote create
  call, and Update, when its timeout leaves room for an attempt, to the remote
  update by ID.
\<close>

theorem department_constructor_total:
  "constructJamfProDepartment d = Inr \<lparr>Department_Name = dep_name d\<rparr> \<and>
   (\<forall>err. constructJamfProDepartment d \<noteq> Inl err) \<and>
   (\<exists>ws. snd (snd (ResourceJamfProDepartmentsCreate tm d (Some conn) w)) =
           w @ CallCreateDepartment \<lparr>Department_Name = dep_name d\<rparr> # ws) \<and>
   (0 < TimeoutUpdate tm \<longrightarrow>
      (\<exists>ws. snd (snd (ResourceJamfProDepartmentsUpdate tm d (Some conn) w)) =
           w @ CallUpdateDepartmentByID (dep_id d) \<lparr>Department_Name = dep_name d\<rparr> # ws))"
proof (intro conjI impI)
  show "constructJamfProDepartment d = Inr \<lparr>Department_Name = dep_name d\<rparr>"
    by (rule constructJamfProDepartment_eq)
  show "\<forall>err. constructJamfProDepartment d \<noteq> Inl err"
    by (simp add: constructJamfProDepartment_eq)
next
  let ?dep = "\<lparr>Department_Name = dep_name d\<rparr>"
  let ?w1 = "w @ [CallCreateDepartment ?dep]"
  show "\<exists>ws. snd (snd (ResourceJamfProDepartmentsCreate tm d (Some conn) w))
          = w @ CallCreateDepartment ?dep # ws"
  proof (cases "CreateDepartment conn w ?dep")
    case (Inl err)
    then show ?thesis
      by (simp add: ResourceJamfProDepartmentsCreate_def constructJamfProDepartment_eq)
  next
    case (Inr resp)
    have "extends ?w1 (snd (snd (ResourceJamfProDepartmentsRead tm
            (d\<lparr>dep_id := Response_ID resp\<rparr>) (Some conn) ?w1)))"
      by (rule department_read_extends)
    with Inr show ?thesis
      by (auto simp: ResourceJamfProDepartmentsCreate_def constructJamfProDepartment_eq
            extends_def)
  qed
next
  let ?dep = "\<lparr>Department_Name = dep_name d\<rparr>"
  let ?f = "department_update_attempt conn (dep_id d) (dep_name d) ?dep"
  let ?P = "\<lambda>s. \<exists>ws. snd s = w @ CallUpdateDepartmentByID (dep_id d) ?dep # ws"
  assume "0 < TimeoutUpdate tm"
  then obtain n where n: "TimeoutUpdate tm = Suc n"
    by (cases "TimeoutUpdate tm") auto
  have step: "\<And>s r s'. ?P s \<Longrightarrow> ?f s = (r, s') \<Longrightarrow> ?P s'"
    by (auto simp: department_update_attempt_def Let_def split: option.splits)
  have wait: "\<And>v w'. ?P (v, w') \<Longrightarrow> ?P (v, w' @ [RetryWait])"
    by auto
  have "?P (snd (retry_loop (Suc n) ?f TimeoutError ((), w)))"
    using step wait department_update_attempt_first by (rule retry_loop_first)
  then obtain ws where ws: "snd (snd (RetryContext (TimeoutUpdate tm) ?f ((), w)))
      = w @ CallUpdateDepartmentByID (dep_id d) ?dep # ws"
    by (auto simp: RetryContext_def n)
  obtain r u w' where rw: "RetryContext (TimeoutUpdate tm) ?f ((), w) = (r, u, w')"
    by (cases "RetryContext (TimeoutUpdate tm) ?f ((), w)")
  with ws have w': "w' = w @ CallUpdateDepartmentByID (dep_id d) ?dep # ws"
    by simp
  show "\<exists>ws. snd (snd (ResourceJamfProDepartmentsUpdate tm d (Some conn) w))
          = w @ CallUpdateDepartmentByID (dep_id d) ?dep # ws"
  proof (cases r)
    case (Some err)
    with rw w' show ?thesis
      by (simp add: ResourceJamfProDepartmentsUpdate_def constructJamfProDepartment_eq Let_def)
  next
    case None
    have "extends w' (snd (snd (ResourceJamfProDepartmentsRead tm d (Some conn) w')))"
      by (rule department_read_extends)
    with None rw w' show ?thesis
      by (auto simp: ResourceJamfProDepartmentsUpdate_def constructJamfProDepartment_eq
            Let_def extends_def)
  qed
qed

text \<open>
  The department \<open>Engineering\<close> on an unreachable remote: the constructor
  succeeds, and the first call of Update is the remote update by ID.
\<close>

theorem department_constructor_total_witness:
  "0 < TimeoutUpdate example_timeouts \<and>
   constructJamfProDepartment example_department = Inr \<lparr>Department_Name = ''Engineering''\<rparr> \<and>
   hd (snd (snd (ResourceJamfProDepartmentsUpdate example_timeouts example_department
          (Some unreachable_client) [])))
     = CallUpdateDepartmentByID ''99'' \<lparr>Department_Name = ''Engineering''\<rparr>"
proof -
  have pos: "0 < TimeoutUpdate example_timeouts"
    by (simp add: example_timeouts_def)
  note inst = department_constructor_total
    [where d = example_department and tm = example_timeouts and conn = unreachable_client
       and w = "[]"]
  from inst have c: "constructJamfProDepartment example_department
      = Inr \<lparr>Department_Name = dep_name example_department\<rparr>"
    by blast
  from inst pos obtain ws where
    "snd (snd (ResourceJamfProDepartmentsUpdate example_timeouts example_department
          (Some unreachable_client) []))
      = [] @ CallUpdateDepartmentByID (dep_id example_department)
          \<lparr>Department_Name = dep_name example_department\<rparr> # ws"
    by blast
  then have "hd (snd (snd (ResourceJamfProDepartmentsUpdate example_timeouts example_department
          (Some unreachable_client) [])))
      = CallUpdateDepartmentByID (dep_id example_department)
          \<lparr>Department_Name = dep_name example_department\<rparr>"
    by simp
  with pos c show ?thesis
    by (simp add: example_department_def)
qed


section \<open>Create when the read-back fails\<close>

text \<open>
  The account Create keeps the identifier: when the remote create has
  succeeded and the loop that reads the account back ends in an error, Create
  returns a diagnostic and the state is the one it was given with the
  identifier set to the ID the remote create returned.
\<close>

lemma account_create_readback_failure_keeps_identifier:
  assumes "RetryContext (TimeoutCreate tm) (account_create_attempt util d cl) (None, w)
      = (None, Some created, w1)"
    and "RetryContext (TimeoutRead tm)
        (account_readback_attempt tm (Some cl) ''failed to read the created resource'')
        (d\<lparr>a_id := Itoa (Created_ID created)\<rparr>, w1) = (Some err, d2, w2)"
  shows "fst (ResourceJamfProAccountCreate util tm d (Some cl) w) \<noteq> [] \<and>
      fst (snd (ResourceJamfProAccountCreate util tm d (Some cl) w))
        = d\<lparr>a_id := Itoa (Created_ID created)\<rparr>"
proof -
  from assms(2) have d2: "d2 = d\<lparr>a_id := Itoa (Created_ID created)\<rparr>"
    by (rule account_readback_failure_keeps_state)
  from assms d2 show ?thesis
    by (simp add: ResourceJamfProAccountCreate_def Let_def generateTFDiags_nonempty)
qed

text \<open>
  On a remote that creates the account \<open>alice\<close> with the ID 42 and cannot be
  read afterwards, Create runs Read once, for the whole of the read timeout,
  returns a diagnostic, and the identifier is 42.
\<close>

lemma account_create_readback_example:
  "fst (ResourceJamfProAccountCreate identity_assertion example_timeouts new_account_data
          (Some create_only_client) []) \<noteq> [] \<and>
   snd (snd (ResourceJamfProAccountCreate identity_assertion example_timeouts new_account_data
          (Some create_only_client) []))
     = [CallGetAccounts, CallCreateAccount constructed_account,
        CallGetAccountByID 42, CallGetAccountByName ''alice'', RetryWait,
        CallGetAccountByID 42, CallGetAccountByName ''alice'', RetryWait, RetryWait] \<and>
   a_id (fst (snd (ResourceJamfProAccountCreate identity_assertion example_timeouts
          new_account_data (Some create_only_client) []))) = ''42''"
  by (simp add: ResourceJamfProAccountCreate_def ResourceJamfProAccountRead_def
        example_defs callback_defs Atoi_42 Itoa_42 generateTFDiagsFromHTTPError_def)

text \<open>
  Claim C6 asks that a Create whose remote create succeeds and whose read-back
  fails after its retries returns a diagnostic and leaves the identifier the
  remote create returned in the state. The account Create does so
  (\<open>account_create_readback_failure_keeps_identifier\<close>). The department
  Create does not: the remote creates \<open>Engineering\<close> with the ID 42 and
  cannot be read afterwards; Create calls Read, whose two attempts fail, and
  the failure branch of Read clears the identifier; Create returns the
  diagnostic of Read and the identifier is empty, not 42.
\<close>

theorem department_create_readback_clears_identifier:
  "CreateDepartment create_only_client [] \<lparr>Department_Name = ''Engineering''\<rparr>
     = Inr \<lparr>Response_ID = ''42''\<rparr> \<and>
   fst (ResourceJamfProDepartmentsCreate example_timeouts new_department
          (Some create_only_client) []) \<noteq> [] \<and>
   snd (snd (ResourceJamfProDepartmentsCreate example_timeouts new_department
          (Some create_only_client) []))
     = [CallCreateDepartment \<lparr>Department_Name = ''Engineering''\<rparr>,
        CallGetDepartmentByID ''42'', RetryWait, CallGetDepartmentByID ''42'', RetryWait] \<and>
   dep_id (fst (snd (ResourceJamfProDepartmentsCreate example_timeouts new_department
          (Some create_only_client) []))) = []"
  by (simp add: ResourceJamfProDepartmentsCreate_def ResourceJamfProDepartmentsRead_def
        constructJamfProDepartment_eq example_defs callback_defs diag_FromErr_def)

section \<open>Read when every lookup fails\<close>

text \<open>
  Claim C2 asks that a Read which fails after all its retries clears the
  identifier and returns a diagnostic. The department Read does so
  (\<open>department_read_failure_clears_id\<close>). The account Read does not: on an
  unreachable remote it fetches by ID and by name at each of its two attempts,
  returns a diagnostic, and the identifier is still \<open>42\<close>.
\<close>

theorem account_read_failure_keeps_identifier:
  "fst (ResourceJamfProAccountRead example_timeouts example_account_data
          (Some unreachable_client) []) \<noteq> [] \<and>
   snd (snd (ResourceJamfProAccountRead example_timeouts example_account_data
          (Some unreachable_client) []))
     = [CallGetAccountByID 42, CallGetAccountByName ''alice'', RetryWait,
        CallGetAccountByID 42, CallGetAccountByName ''alice'', RetryWait] \<and>
   a_id (fst (snd (ResourceJamfProAccountRead example_timeouts example_account_data
          (Some unreachable_client) []))) = ''42''"
  by (simp add: ResourceJamfProAccountRead_def example_defs callback_defs Atoi_42
        generateTFDiagsFromHTTPError_def)

section \<open>An identifier that is not a number\<close>

text \<open>
  Claim C10, as amended. When the stored identifier of an account does not
  parse as a decimal integer, the closures of Read and Delete return a
  non-retryable error before any remote call, so that Read and Delete fail at
  their first attempt, without a wait and without a remote call, and leave the
  state as it was. Update parses the identifier only after the constructor
  has run, so the constructor's \<open>GetAccounts\<close> lookup is made first; the
  closure of Update then returns a non-retryable error, and Update fails at
  that first attempt, with no wait and no update call, and leaves the state as
  it was.
\<close>

theorem unparsable_identifier_fails_fast:
  "Atoi (a_id d) = Inl perr \<longrightarrow>
   account_read_attempt d cl (v, w) =
     (Some (NonRetryableError
        (errorString [Lit (''error converting id ('' @ a_id d @ '') to integer: ''),
           ErrorOf perr])), v, w) \<and>
   account_delete_attempt d cl ((), w) =
     (Some (NonRetryableError
        (errorString [Lit ''failed to parse dock item ID: '', ErrorOf perr])), (), w) \<and>
   account_update_attempt util d cl ((), w) =
     (Some (NonRetryableError
        (case fst (constructJamfProAccount util d cl w) of
           Inl err \<Rightarrow>
             errorString [Lit ''failed to construct the account for terraform update: '',
               ErrorOf err]
         | Inr account \<Rightarrow>
             errorString [Lit (''error converting id ('' @ a_id d @ '') to integer: ''),
               ErrorOf perr])), (), w @ [CallGetAccounts]) \<and>
   (0 < TimeoutRead tm \<longrightarrow>
      ResourceJamfProAccountRead tm d (Some cl) w =
        (generateTFDiagsFromHTTPError
           (errorString [Lit (''error converting id ('' @ a_id d @ '') to integer: ''),
              ErrorOf perr])
           d ''read'', d, w)) \<and>
   (0 < TimeoutDelete tm \<longrightarrow>
      ResourceJamfProAccountDelete tm d (Some cl) w =
        (generateTFDiagsFromHTTPError
           (errorString [Lit ''failed to parse dock item ID: '', ErrorOf perr]) d ''delete'',
         d, w)) \<and>
   (0 < TimeoutUpdate tm \<longrightarrow>
      fst (ResourceJamfProAccountUpdate util tm d (Some cl) w) \<noteq> [] \<and>
      fst (snd (ResourceJamfProAccountUpdate util tm d (Some cl) w)) = d \<and>
      snd (snd (ResourceJamfProAccountUpdate util tm d (Some cl) w)) = w @ [CallGetAccounts])"
proof (intro impI conjI)
  assume p: "Atoi (a_id d) = Inl perr"
  from p show "account_read_attempt d cl (v, w) =
     (Some (NonRetryableError
        (errorString [Lit (''error converting id ('' @ a_id d @ '') to integer: ''),
           ErrorOf perr])), v, w)"
    by (simp add: account_read_attempt_def)
  from p show "account_delete_attempt d cl ((), w) =
     (Some (NonRetryableError
        (errorString [Lit ''failed to parse dock item ID: '', ErrorOf perr])), (), w)"
    by (simp add: account_delete_attempt_def)
  obtain c w1 where c: "constructJamfProAccount util d cl w = (c, w1)"
    by (cases "constructJamfProAccount util d cl w")
  then have w1: "w1 = w @ [CallGetAccounts]"
    by (auto simp: constructJamfProAccount_def Let_def split: sum.splits)
  from p c w1 show a: "account_update_attempt util d cl ((), w) =
     (Some (NonRetryableError
        (case fst (constructJamfProAccount util d cl w) of
           Inl err \<Rightarrow>
             errorString [Lit ''failed to construct the account for terraform update: '',
               ErrorOf err]
         | Inr account \<Rightarrow>
             errorString [Lit (''error converting id ('' @ a_id d @ '') to integer: ''),
               ErrorOf perr])), (), w @ [CallGetAccounts])"
    by (cases c) (simp_all add: account_update_attempt_def)
  {
    assume "0 < TimeoutRead tm"
    then obtain n where n: "TimeoutRead tm = Suc n"
      by (cases "TimeoutRead tm") auto
    from p n show "ResourceJamfProAccountRead tm d (Some cl) w =
        (generateTFDiagsFromHTTPError
           (errorString [Lit (''error converting id ('' @ a_id d @ '') to integer: ''),
              ErrorOf perr])
           d ''read'', d, w)"
      by (simp add: ResourceJamfProAccountRead_def RetryContext_def account_read_attempt_def
            NonRetryableError_def)
  }
  {
    assume "0 < TimeoutDelete tm"
    then obtain n where n: "TimeoutDelete tm = Suc n"
      by (cases "TimeoutDelete tm") auto
    from p n show "ResourceJamfProAccountDelete tm d (Some cl) w =
        (generateTFDiagsFromHTTPError
           (errorString [Lit ''failed to parse dock item ID: '', ErrorOf perr]) d ''delete'',
         d, w)"
      by (simp add: ResourceJamfProAccountDelete_def RetryContext_def account_delete_attempt_def
            NonRetryableError_def)
  }
  {
    assume "0 < TimeoutUpdate tm"
    then obtain n where n: "TimeoutUpdate tm = Suc n"
      by (cases "TimeoutUpdate tm") auto
    from a n have "\<exists>e. RetryContext (TimeoutUpdate tm) (account_update_attempt util d cl) ((), w)
        = (Some e, (), w @ [CallGetAccounts])"
      by (simp add: RetryContext_def NonRetryableError_def)
    then obtain e where e:
      "RetryContext (TimeoutUpdate tm) (account_update_attempt util d cl) ((), w)
        = (Some e, (), w @ [CallGetAccounts])"
      by blast
    from e show "fst (ResourceJamfProAccountUpdate util tm d (Some cl) w) \<noteq> []"
      by (simp add: ResourceJamfProAccountUpdate_def generateTFDiags_nonempty)
    from e show "fst (snd (ResourceJamfProAccountUpdate util tm d (Some cl) w)) = d"
      by (simp add: ResourceJamfProAccountUpdate_def)
    from e show "snd (snd (ResourceJamfProAccountUpdate util tm d (Some cl) w))
        = w @ [CallGetAccounts]"
      by (simp add: ResourceJamfProAccountUpdate_def)
  }
qed

text \<open>
  The claim as it was stated fails on Update: with the identifier \<open>abc\<close>,
  the log of Update holds the call of \<open>GetAccounts\<close> that the constructor
  made before the identifier was parsed.
\<close>

theorem account_update_calls_remote_before_parsing:
  "Atoi (a_id bad_id_account_data) = Inl (syntaxError ''Atoi'' ''abc'') \<and>
   fst (ResourceJamfProAccountUpdate identity_assertion example_timeouts bad_id_account_data
          (Some accounts_listing_client) []) \<noteq> [] \<and>
   snd (snd (ResourceJamfProAccountUpdate identity_assertion example_timeouts
          bad_id_account_data (Some accounts_listing_client) [])) = [CallGetAccounts]"
  by (simp add: ResourceJamfProAccountUpdate_def example_defs callback_defs Atoi_abc
        generateTFDiagsFromHTTPError_def)

text \<open>
  The account with the identifier \<open>abc\<close> on an unreachable remote: the
  closures of Read and Delete return an error that is not retryable, and the
  three callbacks leave the state as it was, Read and Delete with an empty log.
\<close>

theorem unparsable_identifier_fails_fast_witness:
  "Atoi (a_id bad_id_account_data) = Inl (syntaxError ''Atoi'' ''abc'') \<and>
   0 < TimeoutRead example_timeouts \<and> 0 < TimeoutDelete example_timeouts \<and>
   0 < TimeoutUpdate example_timeouts \<and>
   account_read_attempt bad_id_account_data unreachable_client (None, []) =
     (Some \<lparr>Err = errorString [Lit ''error converting id (abc) to integer: '',
                ErrorOf (syntaxError ''Atoi'' ''abc'')],
            Retryable = False\<rparr>, None, []) \<and>
   account_delete_attempt bad_id_account_data unreachable_client ((), []) =
     (Some \<lparr>Err = errorString [Lit ''failed to parse dock item ID: '',
                ErrorOf (syntaxError ''Atoi'' ''abc'')],
            Retryable = False\<rparr>, (), []) \<and>
   snd (ResourceJamfProAccountRead example_timeouts bad_id_account_data
          (Some unreachable_client) []) = (bad_id_account_data, []) \<and>
   snd (ResourceJamfProAccountDelete example_timeouts bad_id_account_data
          (Some unreachable_client) []) = (bad_id_account_data, []) \<and>
   snd (ResourceJamfProAccountUpdate identity_assertion example_timeouts bad_id_account_data
          (Some unreachable_client) []) = (bad_id_account_data, [CallGetAccounts])"
proof -
  have p: "Atoi (a_id bad_id_account_data) = Inl (syntaxError ''Atoi'' ''abc'')"
    by (simp add: bad_id_account_data_def Atoi_abc)
  have t: "0 < TimeoutRead example_timeouts" "0 < TimeoutDelete example_timeouts"
    "0 < TimeoutUpdate example_timeouts"
    by (simp_all add: example_timeouts_def)
  have i: "a_id bad_id_account_data = ''abc''"
    by (simp add: bad_id_account_data_def)
  note inst = unparsable_identifier_fails_fast
    [where d = bad_id_account_data and tm = example_timeouts and cl = unreachable_client
       and w = "[]" and util = identity_assertion and perr = "syntaxError ''Atoi'' ''abc''"
       and v = None]
  from inst p t have
    "account_read_attempt bad_id_account_data unreachable_client (None, []) =
     (Some \<lparr>Err = errorString [Lit ''error converting id (abc) to integer: '',
                ErrorOf (syntaxError ''Atoi'' ''abc'')],
            Retryable = False\<rparr>, None, [])"
    "account_delete_attempt bad_id_account_data unreachable_client ((), []) =
     (Some \<lparr>Err = errorString [Lit ''failed to parse dock item ID: '',
                ErrorOf (syntaxError ''Atoi'' ''abc'')],
            Retryable = False\<rparr>, (), [])"
    "snd (ResourceJamfProAccountRead example_timeouts bad_id_account_data
          (Some unreachable_client) []) = (bad_id_account_data, [])"
    "snd (ResourceJamfProAccountDelete example_timeouts bad_id_account_data
          (Some unreachable_client) []) = (bad_id_account_data, [])"
    "snd (ResourceJamfProAccountUpdate identity_assertion example_timeouts bad_id_account_data
          (Some unreachable_client) []) = (bad_id_account_data, [CallGetAccounts])"
    by (simp_all add: prod_eq_iff NonRetryableError_def i)
  with p t show ?thesis by blast
qed

section \<open>The fallback to the name in the account Read\<close>

text \<open>
  Claim C1, as amended. In an account Read whose identifier parses and whose
  timeout leaves room for an attempt: when the fetch by ID returns a
  structured API error, the Read ends at once with a diagnostic, the state as
  it was, and no fetch by name; when the fetch by ID returns any other error,
  the account is fetched by name next, and if that fetch succeeds the Read
  succeeds with the state set from the account fetched by name.
\<close>

theorem account_read_name_fallback:
  "Atoi (a_id d) = Inr accountID \<and> 0 < TimeoutRead tm \<longrightarrow>
   (GetAccountByID conn w accountID = Inl (APIError code msg) \<longrightarrow>
      ResourceJamfProAccountRead tm d (Some conn) w =
        (generateTFDiagsFromHTTPError
           (errorString [Lit (''API Error (Code: '' @ Itoa code @ ''): '' @ msg)]) d ''read'',
         d, w @ [CallGetAccountByID accountID])) \<and>
   (GetAccountByID conn w accountID = Inl (errorString etext) \<longrightarrow>
      (\<exists>ws. snd (snd (ResourceJamfProAccountRead tm d (Some conn) w)) =
         w @ [CallGetAccountByID accountID, CallGetAccountByName (a_name d)] @ ws)) \<and>
   (GetAccountByID conn w accountID = Inl (errorString etext) \<and>
    GetAccountByName conn (w @ [CallGetAccountByID accountID]) (a_name d) = Inr fetched \<longrightarrow>
      ResourceJamfProAccountRead tm d (Some conn) w =
        ([], account_set_state d fetched,
         w @ [CallGetAccountByID accountID, CallGetAccountByName (a_name d)]))"
proof (intro impI conjI)
  assume "Atoi (a_id d) = Inr accountID \<and> 0 < TimeoutRead tm"
  then have p: "Atoi (a_id d) = Inr accountID" and "0 < TimeoutRead tm"
    by simp_all
  then obtain n where n: "TimeoutRead tm = Suc n"
    by (cases "TimeoutRead tm") auto
  {
    assume "GetAccountByID conn w accountID = Inl (APIError code msg)"
    with p n show "ResourceJamfProAccountRead tm d (Some conn) w =
        (generateTFDiagsFromHTTPError
           (errorString [Lit (''API Error (Code: '' @ Itoa code @ ''): '' @ msg)]) d ''read'',
         d, w @ [CallGetAccountByID accountID])"
      by (simp add: ResourceJamfProAccountRead_def RetryContext_def account_read_attempt_def
            NonRetryableError_def Let_def)
  }
  {
    assume t: "GetAccountByID conn w accountID = Inl (errorString etext)"
    let ?w2 = "w @ [CallGetAccountByID accountID, CallGetAccountByName (a_name d)]"
    let ?P = "\<lambda>s. extends ?w2 (snd s)"
    let ?f = "account_read_attempt d conn"
    have step: "\<And>s r s'. ?P s \<Longrightarrow> ?f s = (r, s') \<Longrightarrow> ?P s'"
      using p
      by (auto simp: account_read_attempt_def Let_def extends_append
          split: sum.splits go_error.splits)
    have first: "?P (snd (?f (None, w)))"
      using p t
      by (auto simp: account_read_attempt_def Let_def extends_def
          split: sum.splits go_error.splits)
    have wait: "\<And>v w'. ?P (v, w') \<Longrightarrow> ?P (v, w' @ [RetryWait])"
      by (simp add: extends_append)
    have "?P (snd (retry_loop (Suc n) ?f TimeoutError (None, w)))"
      using step wait first by (rule retry_loop_first)
    then have "extends ?w2 (snd (snd (RetryContext (TimeoutRead tm) ?f (None, w))))"
      by (simp add: RetryContext_def n)
    then show "\<exists>ws. snd (snd (ResourceJamfProAccountRead tm d (Some conn) w)) =
        w @ [CallGetAccountByID accountID, CallGetAccountByName (a_name d)] @ ws"
      by (auto simp: ResourceJamfProAccountRead_def extends_def
          split: prod.splits option.splits)
  }
  {
    assume "GetAccountByID conn w accountID = Inl (errorString etext) \<and>
      GetAccountByName conn (w @ [CallGetAccountByID accountID]) (a_name d) = Inr fetched"
    with p n show "ResourceJamfProAccountRead tm d (Some conn) w =
        ([], account_set_state d fetched,
         w @ [CallGetAccountByID accountID, CallGetAccountByName (a_name d)])"
      by (simp add: ResourceJamfProAccountRead_def RetryContext_def account_read_attempt_def
            Let_def)
  }
qed

text \<open>
  The claim as it was stated fails: the remote answers the fetch by ID with
  the structured error 404 and knows the account by its name; the Read
  returns a diagnostic after the one call by ID, and never fetches by name.
\<close>

theorem account_read_no_fallback_on_api_error:
  "GetAccountByID id_not_found_client [] 42 = Inl (APIError 404 ''Not Found'') \<and>
   GetAccountByName id_not_found_client [CallGetAccountByID 42] ''alice'' = Inr example_account \<and>
   fst (ResourceJamfProAccountRead example_timeouts example_account_data
          (Some id_not_found_client) []) \<noteq> [] \<and>
   snd (snd (ResourceJamfProAccountRead example_timeouts example_account_data
          (Some id_not_found_client) [])) = [CallGetAccountByID 42]"
  by (simp add: ResourceJamfProAccountRead_def example_defs callback_defs Atoi_42
        generateTFDiagsFromHTTPError_def)

text \<open>
  A remote on which the fetch by ID meets a transport error and the fetch by
  name works: the Read succeeds after the two calls. On the remote of the
  theorem above, the Read ends after the call by ID with the state as it was.
\<close>

theorem account_read_name_fallback_witness:
  "Atoi (a_id example_account_data) = Inr 42 \<and> 0 < TimeoutRead example_timeouts \<and>
   GetAccountByID name_lookup_client [] 42 = Inl (errorString [Lit ''connection refused'']) \<and>
   GetAccountByName name_lookup_client ([] @ [CallGetAccountByID 42])
       (a_name example_account_data) = Inr example_account \<and>
   ResourceJamfProAccountRead example_timeouts example_account_data (Some name_lookup_client) []
     = ([], account_set_state example_account_data example_account,
        [] @ [CallGetAccountByID 42, CallGetAccountByName (a_name example_account_data)]) \<and>
   GetAccountByID id_not_found_client [] 42 = Inl (APIError 404 ''Not Found'') \<and>
   snd (ResourceJamfProAccountRead example_timeouts example_account_data
          (Some id_not_found_client) [])
     = (example_account_data, [] @ [CallGetAccountByID 42])"
proof -
  have p: "Atoi (a_id example_account_data) = Inr 42 \<and> 0 < TimeoutRead example_timeouts"
    by (simp add: example_account_data_def example_timeouts_def Atoi_42)
  have g: "GetAccountByID name_lookup_client [] 42 = Inl (errorString [Lit ''connection refused''])"
    by (simp add: example_defs)
  have h: "GetAccountByName name_lookup_client ([] @ [CallGetAccountByID 42])
       (a_name example_account_data) = Inr example_account"
    by (simp add: name_lookup_client_def)
  have k: "GetAccountByID id_not_found_client [] 42 = Inl (APIError 404 ''Not Found'')"
    by (simp add: example_defs)
  note inst = account_read_name_fallback
    [where d = example_account_data and accountID = 42 and tm = example_timeouts
       and w = "[]"]
  from inst[where conn = name_lookup_client and etext = "[Lit ''connection refused'']"
      and fetched = example_account] p g h
  have r: "ResourceJamfProAccountRead example_timeouts example_account_data
      (Some name_lookup_client) []
     = ([], account_set_state example_account_data example_account,
        [] @ [CallGetAccountByID 42, CallGetAccountByName (a_name example_account_data)])"
    by blast
  from inst[where conn = id_not_found_client and code = 404 and msg = "''Not Found''"] p k
  have "ResourceJamfProAccountRead example_timeouts example_account_data
      (Some id_not_found_client) [] =
        (generateTFDiagsFromHTTPError
           (errorString [Lit (''API Error (Code: '' @ Itoa 404 @ ''): '' @ ''Not Found'')])
           example_account_data ''read'',
         example_account_data, [] @ [CallGetAccountByID 42])"
    by blast
  then have q: "snd (ResourceJamfProAccountRead example_timeouts example_account_data
          (Some id_not_found_client) [])
     = (example_account_data, [] @ [CallGetAccountByID 42])"
    by simp
  from p g h r k q show ?thesis by blast
qed


section \<open>What a successful Read writes into the state\<close>







text \<open>
  The set that \<open>NewSet\<close> builds from a list holds only items of the list, one
  for each hash code, in the order of the codes; it holds every item of the
  list when no two of them share a hash code.
\<close>

lemma Set_Add_F: "Set_F (Set_Add x s) = Set_F s"
  by (simp add: Set_Add_def Let_def)

lemma Set_hash_cong: "Set_F s = Set_F s' \<Longrightarrow> Set_hash s x = Set_hash s' x"
  by (simp add: Set_hash_def)

lemma Set_Add_entries:
  "set (Set_m (Set_Add x s)) =
     (if Set_hash s x \<in> fst ` set (Set_m s) then set (Set_m s)
      else insert (Set_hash s x, x) (set (Set_m s)))"
  by (simp add: Set_Add_def Let_def set_insort_key)

lemma fold_Set_Add_F: "Set_F (fold Set_Add items s) = Set_F s"
  by (induction items arbitrary: s) (simp_all add: Set_Add_F)

lemma fold_Set_Add_items:
  "snd ` set (Set_m (fold Set_Add items s)) \<subseteq> snd ` set (Set_m s) \<union> set items"
proof (induction items arbitrary: s)
  case Nil
  show ?case by simp
next
  case (Cons x items)
  have "snd ` set (Set_m (Set_Add x s)) \<subseteq> insert x (snd ` set (Set_m s))"
    by (auto simp: Set_Add_entries split: if_splits)
  with Cons[of "Set_Add x s"] show ?case by auto
qed

lemma fold_Set_Add_codes:
  "fst ` set (Set_m (fold Set_Add items s)) = fst ` set (Set_m s) \<union> Set_hash s ` set items"
proof (induction items arbitrary: s)
  case Nil
  show ?case by simp
next
  case (Cons x items)
  have c: "fst ` set (Set_m (Set_Add x s)) = insert (Set_hash s x) (fst ` set (Set_m s))"
    by (auto simp: Set_Add_entries split: if_splits)
  have h: "Set_hash (Set_Add x s) = Set_hash s"
    by (rule ext) (simp add: Set_hash_def Set_Add_F)
  from Cons[of "Set_Add x s"] c h show ?case by auto
qed

lemma fold_Set_Add_keyed:
  assumes "\<forall>(c, y) \<in> set (Set_m s). c = Set_hash s y"
  shows "\<forall>(c, y) \<in> set (Set_m (fold Set_Add items s)). c = Set_hash s y"
  using assms
proof (induction items arbitrary: s)
  case Nil
  then show ?case by simp
next
  case (Cons x items)
  have h: "Set_hash (Set_Add x s) = Set_hash s"
    by (rule ext) (simp add: Set_hash_def Set_Add_F)
  have "\<forall>(c, y) \<in> set (Set_m (Set_Add x s)). c = Set_hash (Set_Add x s) y"
    using Cons.prems by (auto simp: Set_Add_entries h split: if_splits)
  from Cons.IH[OF this] show ?case by (simp add: h)
qed

lemma NewSet_items: "set (Set_List (NewSet f items)) \<subseteq> set items"
  using fold_Set_Add_items[of items "\<lparr>Set_F = f, Set_m = []\<rparr>"]
  by (simp add: NewSet_def Set_List_def)

lemma NewSet_all_items:
  assumes "inj_on (Set_hash \<lparr>Set_F = f, Set_m = []\<rparr>) (set items)"
  shows "set (Set_List (NewSet f items)) = set items"
proof
  show "set (Set_List (NewSet f items)) \<subseteq> set items" by (rule NewSet_items)
  show "set items \<subseteq> set (Set_List (NewSet f items))"
  proof
    fix x assume x: "x \<in> set items"
    let ?s = "\<lparr>Set_F = f, Set_m = []\<rparr>"
    from x fold_Set_Add_codes[of items ?s]
    have "Set_hash ?s x \<in> fst ` set (Set_m (fold Set_Add items ?s))" by auto
    then obtain y where y: "(Set_hash ?s x, y) \<in> set (Set_m (fold Set_Add items ?s))"
      by force
    with fold_Set_Add_keyed[of ?s items] have "Set_hash ?s x = Set_hash ?s y" by auto
    moreover from y fold_Set_Add_items[of items ?s] have "y \<in> set items" by force
    ultimately have "x = y" using assms x by (auto dest: inj_onD)
    with y show "x \<in> set (Set_List (NewSet f items))"
      by (force simp: NewSet_def Set_List_def)
  qed
qed

lemma NewSet_sorted: "sorted (map fst (Set_m (NewSet f items)))"
proof -
  have "sorted (map fst (Set_m s)) \<Longrightarrow> sorted (map fst (Set_m (fold Set_Add items s)))" for s
  proof (induction items arbitrary: s)
    case Nil then show ?case by simp
  next
    case (Cons x items)
    have "sorted (map fst (Set_m (Set_Add x s)))"
      using Cons.prems by (simp add: Set_Add_def Let_def sorted_insort_key)
    from Cons.IH[OF this] show ?case by simp
  qed
  then show ?thesis by (simp add: NewSet_def)
qed




section \<open>The retry policy of Create\<close>

lemma constructJamfProAccount_world:
  "snd (constructJamfProAccount util d cl w) = w @ [CallGetAccounts]"
  by (simp add: constructJamfProAccount_def Let_def split: sum.split)

lemma create_calls_append:
  "create_calls (w @ ws) = create_calls w + create_calls ws"
  by (simp add: create_calls_def)

text \<open>One run of the closure of Create, by the answer of the remote create call.\<close>

lemma account_create_attempt_api_error:
  assumes "fst (constructJamfProAccount util d cl w) = Inr account"
    and "CreateAccount cl (w @ [CallGetAccounts]) account = Inl (APIError code msg)"
  shows "account_create_attempt util d cl (c, w) =
     (Some (NonRetryableError (errorString [Lit (''API Error (Code: '' @ Itoa code @ ''): '' @ msg)])),
      None, w @ [CallGetAccounts, CallCreateAccount account])"
proof -
  from assms(1) constructJamfProAccount_world[of util d cl w]
  have "constructJamfProAccount util d cl w = (Inr account, w @ [CallGetAccounts])"
    by (simp add: prod_eq_iff)
  with assms(2) show ?thesis
    by (simp add: account_create_attempt_def)
qed

lemma account_create_attempt_other_error:
  assumes "fst (constructJamfProAccount util d cl w) = Inr account"
    and "CreateAccount cl (w @ [CallGetAccounts]) account = Inl (errorString etext)"
  shows "account_create_attempt util d cl (c, w) =
     (Some (RetryableError (errorString etext)),
      None, w @ [CallGetAccounts, CallCreateAccount account])"
proof -
  from assms(1) constructJamfProAccount_world[of util d cl w]
  have "constructJamfProAccount util d cl w = (Inr account, w @ [CallGetAccounts])"
    by (simp add: prod_eq_iff)
  with assms(2) show ?thesis
    by (simp add: account_create_attempt_def)
qed

text \<open>
  On a remote whose create call always meets a transport error, the loop uses
  up its attempts: it makes as many create calls as the timeout leaves room for.
\<close>

lemma account_create_loop_transport_errors:
  assumes tr: "\<forall>w a. \<exists>t. CreateAccount cl w a = Inl (errorString t)"
    and ok: "\<forall>w. \<exists>a. fst (constructJamfProAccount util d cl w) = Inr a"
  shows "\<exists>e' c' w'. retry_loop n (account_create_attempt util d cl) e (c, w) = (Some e', c', w') \<and>
           create_calls w' = create_calls w + n"
proof (induction n arbitrary: e c w)
  case 0
  show ?case by simp
next
  case (Suc n)
  from ok obtain a where a: "fst (constructJamfProAccount util d cl w) = Inr a"
    by blast
  from tr obtain t where t: "CreateAccount cl (w @ [CallGetAccounts]) a = Inl (errorString t)"
    by blast
  let ?w' = "w @ [CallGetAccounts, CallCreateAccount a, RetryWait]"
  from account_create_attempt_other_error[OF a t]
  have step: "retry_loop (Suc n) (account_create_attempt util d cl) e (c, w)
      = retry_loop n (account_create_attempt util d cl) (errorString t) (None, ?w')"
    by (simp add: RetryableError_def now_def)
  from Suc.IH[of "errorString t" None ?w'] obtain e' c' w' where
    "retry_loop n (account_create_attempt util d cl) (errorString t) (None, ?w') = (Some e', c', w')"
    and "create_calls w' = create_calls ?w' + n"
    by blast
  with step show ?case
    by (simp add: create_calls_append create_calls_def)
qed

text \<open>
  Claim C3, as amended. In the account Create, at any run of the retried
  closure: a structured API error from the remote create call ends the loop
  at once with that error, whatever is left of the timeout; any other error
  from it makes the loop wait and run the closure again while the timeout
  leaves room, and is the error returned when it does not. So a remote that
  always answers with a transport error is called as many times as the timeout
  leaves room for, and one that always answers with a structured error is
  called once.
  The department Create has no retry loop: it calls the remote create once,
  and any error from it, structured or not, ends the Create with a diagnostic.
\<close>

theorem create_retry_policy:
  "(fst (constructJamfProAccount util d cl w) = Inr account \<and>
    CreateAccount cl (w @ [CallGetAccounts]) account = Inl (APIError code msg) \<longrightarrow>
      retry_loop (Suc n) (account_create_attempt util d cl) e (c, w) =
        (Some (errorString [Lit (''API Error (Code: '' @ Itoa code @ ''): '' @ msg)]), None,
         w @ [CallGetAccounts, CallCreateAccount account])) \<and>
   (fst (constructJamfProAccount util d cl w) = Inr account \<and>
    CreateAccount cl (w @ [CallGetAccounts]) account = Inl (errorString etext) \<longrightarrow>
      retry_loop (Suc n) (account_create_attempt util d cl) e (c, w) =
        retry_loop n (account_create_attempt util d cl) (errorString etext)
          (None, w @ [CallGetAccounts, CallCreateAccount account, RetryWait]) \<and>
      retry_loop 0 (account_create_attempt util d cl) (errorString etext)
          (None, w @ [CallGetAccounts, CallCreateAccount account, RetryWait]) =
        (Some (errorString etext), None,
         w @ [CallGetAccounts, CallCreateAccount account, RetryWait])) \<and>
   ((\<forall>w a. \<exists>t. CreateAccount cl w a = Inl (errorString t)) \<and>
    (\<forall>w. \<exists>a. fst (constructJamfProAccount util d cl w) = Inr a) \<longrightarrow>
      fst (ResourceJamfProAccountCreate util tm d (Some cl) w) \<noteq> [] \<and>
      create_calls (snd (snd (ResourceJamfProAccountCreate util tm d (Some cl) w)))
        = create_calls w + TimeoutCreate tm) \<and>
   ((\<forall>w a. \<exists>code msg. CreateAccount cl w a = Inl (APIError code msg)) \<and>
    (\<forall>w. \<exists>a. fst (constructJamfProAccount util d cl w) = Inr a) \<and> 0 < TimeoutCreate tm \<longrightarrow>
      fst (ResourceJamfProAccountCreate util tm d (Some cl) w) \<noteq> [] \<and>
      create_calls (snd (snd (ResourceJamfProAccountCreate util tm d (Some cl) w)))
        = create_calls w + 1) \<and>
   (CreateDepartment cl w \<lparr>Department_Name = dep_name dd\<rparr> = Inl err \<longrightarrow>
      ResourceJamfProDepartmentsCreate tm dd (Some cl) w =
        (diag_FromErr (errorString [Lit (''failed to create Jamf Pro Department '' @ [CHR 0x27] @
           dep_name dd @ [CHR 0x27] @ '': ''), ErrorOf err]),
         dd, w @ [CallCreateDepartment \<lparr>Department_Name = dep_name dd\<rparr>]))"
proof (intro conjI impI)
  assume "fst (constructJamfProAccount util d cl w) = Inr account \<and>
    CreateAccount cl (w @ [CallGetAccounts]) account = Inl (APIError code msg)"
  then have "account_create_attempt util d cl (c, w) =
     (Some (NonRetryableError (errorString [Lit (''API Error (Code: '' @ Itoa code @ ''): '' @ msg)])),
      None, w @ [CallGetAccounts, CallCreateAccount account])"
    using account_create_attempt_api_error by blast
  then show "retry_loop (Suc n) (account_create_attempt util d cl) e (c, w) =
        (Some (errorString [Lit (''API Error (Code: '' @ Itoa code @ ''): '' @ msg)]), None,
         w @ [CallGetAccounts, CallCreateAccount account])"
    by (simp add: NonRetryableError_def)
next
  assume "fst (constructJamfProAccount util d cl w) = Inr account \<and>
    CreateAccount cl (w @ [CallGetAccounts]) account = Inl (errorString etext)"
  then have "account_create_attempt util d cl (c, w) =
     (Some (RetryableError (errorString etext)),
      None, w @ [CallGetAccounts, CallCreateAccount account])"
    using account_create_attempt_other_error by blast
  then show "retry_loop (Suc n) (account_create_attempt util d cl) e (c, w) =
        retry_loop n (account_create_attempt util d cl) (errorString etext)
          (None, w @ [CallGetAccounts, CallCreateAccount account, RetryWait])"
    by (simp add: RetryableError_def now_def)
  show "retry_loop 0 (account_create_attempt util d cl) (errorString etext)
          (None, w @ [CallGetAccounts, CallCreateAccount account, RetryWait]) =
        (Some (errorString etext), None,
         w @ [CallGetAccounts, CallCreateAccount account, RetryWait])"
    by simp
next
  assume h: "(\<forall>w a. \<exists>t. CreateAccount cl w a = Inl (errorString t)) \<and>
    (\<forall>w. \<exists>a. fst (constructJamfProAccount util d cl w) = Inr a)"
  then obtain e' c' w' where
    l: "RetryContext (TimeoutCreate tm) (account_create_attempt util d cl) (None, w)
          = (Some e', c', w')"
    and n: "create_calls w' = create_calls w + TimeoutCreate tm"
    unfolding RetryContext_def
    using account_create_loop_transport_errors[of cl util d "TimeoutCreate tm" TimeoutError None w]
    by blast
  from l show "fst (ResourceJamfProAccountCreate util tm d (Some cl) w) \<noteq> []"
    by (simp add: ResourceJamfProAccountCreate_def generateTFDiags_nonempty)
  from l n show "create_calls (snd (snd (ResourceJamfProAccountCreate util tm d (Some cl) w)))
        = create_calls w + TimeoutCreate tm"
    by (simp add: ResourceJamfProAccountCreate_def)
next
  assume h: "(\<forall>w a. \<exists>code msg. CreateAccount cl w a = Inl (APIError code msg)) \<and>
    (\<forall>w. \<exists>a. fst (constructJamfProAccount util d cl w) = Inr a) \<and> 0 < TimeoutCreate tm"
  then obtain n where n: "TimeoutCreate tm = Suc n"
    by (cases "TimeoutCreate tm") auto
  from h obtain a where a: "fst (constructJamfProAccount util d cl w) = Inr a"
    by blast
  from h obtain code msg where
    "CreateAccount cl (w @ [CallGetAccounts]) a = Inl (APIError code msg)"
    by blast
  from account_create_attempt_api_error[OF a this]
  have l: "RetryContext (TimeoutCreate tm) (account_create_attempt util d cl) (None, w)
      = (Some (errorString [Lit (''API Error (Code: '' @ Itoa code @ ''): '' @ msg)]), None,
         w @ [CallGetAccounts, CallCreateAccount a])"
    by (simp add: RetryContext_def n NonRetryableError_def)
  from l show "fst (ResourceJamfProAccountCreate util tm d (Some cl) w) \<noteq> []"
    by (simp add: ResourceJamfProAccountCreate_def generateTFDiags_nonempty)
  from l show "create_calls (snd (snd (ResourceJamfProAccountCreate util tm d (Some cl) w)))
        = create_calls w + 1"
    by (simp add: ResourceJamfProAccountCreate_def create_calls_def)
next
  assume "CreateDepartment cl w \<lparr>Department_Name = dep_name dd\<rparr> = Inl err"
  then show "ResourceJamfProDepartmentsCreate tm dd (Some cl) w =
        (diag_FromErr (errorString [Lit (''failed to create Jamf Pro Department '' @ [CHR 0x27] @
           dep_name dd @ [CHR 0x27] @ '': ''), ErrorOf err]),
         dd, w @ [CallCreateDepartment \<lparr>Department_Name = dep_name dd\<rparr>])"
    by (simp add: ResourceJamfProDepartmentsCreate_def constructJamfProDepartment_eq Let_def)
qed

text \<open>
  The claim as it was stated fails on the department: the first create call
  meets a transport error, a second one would succeed and the timeout leaves
  room for two attempts, yet Create returns a diagnostic after the one call.
\<close>

theorem department_create_does_not_retry:
  "CreateDepartment flaky_create_client [] \<lparr>Department_Name = ''Engineering''\<rparr>
     = Inl (errorString [Lit ''connection refused'']) \<and>
   CreateDepartment flaky_create_client
       [CallCreateDepartment \<lparr>Department_Name = ''Engineering''\<rparr>]
       \<lparr>Department_Name = ''Engineering''\<rparr> = Inr \<lparr>Response_ID = ''42''\<rparr> \<and>
   TimeoutCreate example_timeouts = 2 \<and>
   fst (ResourceJamfProDepartmentsCreate example_timeouts new_department
          (Some flaky_create_client) []) \<noteq> [] \<and>
   snd (snd (ResourceJamfProDepartmentsCreate example_timeouts new_department
          (Some flaky_create_client) []))
     = [CallCreateDepartment \<lparr>Department_Name = ''Engineering''\<rparr>]"
  by (simp add: ResourceJamfProDepartmentsCreate_def constructJamfProDepartment_eq
        example_defs diag_FromErr_def Let_def)

text \<open>
  An account on a remote whose create call always meets a transport error:
  the first run of the closure is followed by a second one, and Create makes
  two create calls, as many as the timeout leaves room for. The same on a
  remote that always rejects the creation with a structured error: the loop
  ends at the first run, after one call. A department on an unreachable
  remote: one create call.
\<close>

theorem create_retry_policy_witness:
  "TimeoutCreate example_timeouts = 2 \<and>
   retry_loop (Suc 1)
       (account_create_attempt identity_assertion new_account_data accounts_listing_client)
       TimeoutError (None, [])
     = retry_loop 1
         (account_create_attempt identity_assertion new_account_data accounts_listing_client)
         (errorString [Lit ''connection refused''])
         (None, [] @ [CallGetAccounts, CallCreateAccount constructed_account, RetryWait]) \<and>
   snd (retry_loop (Suc 1)
       (account_create_attempt identity_assertion new_account_data create_rejected_client)
       TimeoutError (None, []))
     = (None, [] @ [CallGetAccounts, CallCreateAccount constructed_account]) \<and>
   fst (ResourceJamfProAccountCreate identity_assertion example_timeouts new_account_data
          (Some accounts_listing_client) []) \<noteq> [] \<and>
   create_calls (snd (snd (ResourceJamfProAccountCreate identity_assertion example_timeouts
          new_account_data (Some accounts_listing_client) []))) = 2 \<and>
   create_calls (snd (snd (ResourceJamfProAccountCreate identity_assertion example_timeouts
          new_account_data (Some create_rejected_client) []))) = 1 \<and>
   snd (ResourceJamfProDepartmentsCreate example_timeouts new_department
          (Some unreachable_client) [])
     = (new_department, [] @ [CallCreateDepartment \<lparr>Department_Name = dep_name new_department\<rparr>])"
proof -
  have t: "TimeoutCreate example_timeouts = 2"
    by (simp add: example_timeouts_def)
  have tr: "\<forall>w a. \<exists>t. CreateAccount accounts_listing_client w a = Inl (errorString t)"
    by (simp add: example_defs)
  have api: "\<forall>w a. \<exists>code msg. CreateAccount create_rejected_client w a = Inl (APIError code msg)"
    by (simp add: example_defs)
  have ok1: "\<forall>w. \<exists>a. fst (constructJamfProAccount identity_assertion new_account_data
      accounts_listing_client w) = Inr a"
    by (simp add: example_defs callback_defs)
  have ok2: "\<forall>w. \<exists>a. fst (constructJamfProAccount identity_assertion new_account_data
      create_rejected_client w) = Inr a"
    by (simp add: example_defs callback_defs)
  have c1: "fst (constructJamfProAccount identity_assertion new_account_data
      accounts_listing_client []) = Inr constructed_account"
    by (simp add: example_defs callback_defs)
  have c2: "fst (constructJamfProAccount identity_assertion new_account_data
      create_rejected_client []) = Inr constructed_account"
    by (simp add: example_defs callback_defs)
  have e1: "CreateAccount accounts_listing_client ([] @ [CallGetAccounts]) constructed_account
      = Inl (errorString [Lit ''connection refused''])"
    by (simp add: example_defs)
  have e2: "CreateAccount create_rejected_client ([] @ [CallGetAccounts]) constructed_account
      = Inl (APIError 409 ''Conflict'')"
    by (simp add: example_defs)
  have e3: "CreateDepartment unreachable_client [] \<lparr>Department_Name = dep_name new_department\<rparr>
      = Inl connection_refused"
    by (simp add: unreachable_client_def)
  note inst = create_retry_policy
    [where util = identity_assertion and d = new_account_data and tm = example_timeouts
       and w = "[]" and n = 1 and e = TimeoutError and c = None
       and account = constructed_account and dd = new_department]
  from inst[where cl = accounts_listing_client and etext = "[Lit ''connection refused'']"] c1 e1
  have r1: "retry_loop (Suc 1)
       (account_create_attempt identity_assertion new_account_data accounts_listing_client)
       TimeoutError (None, [])
     = retry_loop 1
         (account_create_attempt identity_assertion new_account_data accounts_listing_client)
         (errorString [Lit ''connection refused''])
         (None, [] @ [CallGetAccounts, CallCreateAccount constructed_account, RetryWait])"
    by blast
  from inst[where cl = create_rejected_client and code = 409 and msg = "''Conflict''"] c2 e2
  have "retry_loop (Suc 1)
       (account_create_attempt identity_assertion new_account_data create_rejected_client)
       TimeoutError (None, [])
     = (Some (errorString [Lit (''API Error (Code: '' @ Itoa 409 @ ''): '' @ ''Conflict'')]), None,
        [] @ [CallGetAccounts, CallCreateAccount constructed_account])"
    by blast
  then have r2: "snd (retry_loop (Suc 1)
       (account_create_attempt identity_assertion new_account_data create_rejected_client)
       TimeoutError (None, []))
     = (None, [] @ [CallGetAccounts, CallCreateAccount constructed_account])"
    by simp
  from inst[where cl = accounts_listing_client] tr ok1
  have a: "fst (ResourceJamfProAccountCreate identity_assertion example_timeouts new_account_data
          (Some accounts_listing_client) []) \<noteq> [] \<and>
      create_calls (snd (snd (ResourceJamfProAccountCreate identity_assertion example_timeouts
          new_account_data (Some accounts_listing_client) [])))
        = create_calls [] + TimeoutCreate example_timeouts"
    by blast
  from t have pos: "0 < TimeoutCreate example_timeouts"
    by simp
  from inst[where cl = create_rejected_client] api ok2 pos
  have b: "create_calls (snd (snd (ResourceJamfProAccountCreate identity_assertion
          example_timeouts new_account_data (Some create_rejected_client) [])))
        = create_calls [] + 1"
    by blast
  from inst[where cl = unreachable_client and err = connection_refused] e3
  have "ResourceJamfProDepartmentsCreate example_timeouts new_department
      (Some unreachable_client) [] =
        (diag_FromErr (errorString [Lit (''failed to create Jamf Pro Department '' @ [CHR 0x27] @
           dep_name new_department @ [CHR 0x27] @ '': ''), ErrorOf connection_refused]),
         new_department, [] @ [CallCreateDepartment \<lparr>Department_Name = dep_name new_department\<rparr>])"
    by blast
  then have dp: "snd (ResourceJamfProDepartmentsCreate example_timeouts new_department
          (Some unreachable_client) [])
     = (new_department, [] @ [CallCreateDepartment \<lparr>Department_Name = dep_name new_department\<rparr>])"
    by simp
  from a b t have n: "create_calls (snd (snd (ResourceJamfProAccountCreate identity_assertion
          example_timeouts new_account_data (Some accounts_listing_client) []))) = 2"
    and m: "create_calls (snd (snd (ResourceJamfProAccountCreate identity_assertion
          example_timeouts new_account_data (Some create_rejected_client) []))) = 1"
    by (simp_all add: create_calls_def)
  from t r1 r2 a n m dp show ?thesis by blast
qed


section \<open>What the constructors depend on\<close>

text \<open>
  The groups the constructor builds carry the names of the configuration; only
  their IDs come from the map, that is, from the remote.
\<close>

lemma construct_groups_names:
  "construct_groups m gs acc = Inr r \<Longrightarrow>
   map (\<lambda>g. g\<lparr>Group_ID := 0\<rparr>) r =
     map (\<lambda>g. g\<lparr>Group_ID := 0\<rparr>) acc @
     map (\<lambda>b. \<lparr>Group_ID = 0, Group_Name = grp_name b, Group_Site = zero_Site,
               Group_Privileges = zero_Privileges\<rparr>) gs"
proof (induction gs arbitrary: acc)
  case Nil
  then show ?case by simp
next
  case (Cons b gs)
  then show ?case
    by (auto simp: Let_def split: option.splits)
qed

lemma constructJamfProAccount_without_group_ids:
  assumes "fst (constructJamfProAccount util d cl w) = Inr a"
  shows "a\<lparr>Groups := map (\<lambda>g. g\<lparr>Group_ID := 0\<rparr>) (Groups a)\<rparr> =
     (account_fields util d)
       \<lparr>Groups := map (\<lambda>g. g\<lparr>Group_ID := 0\<rparr>) (Groups (account_fields util d)) @
                  map (\<lambda>b. \<lparr>Group_ID = 0, Group_Name = grp_name b, Group_Site = zero_Site,
                            Group_Privileges = zero_Privileges\<rparr>) (Set_List (a_groups d)),
        Privileges := account_privileges util d\<rparr>"
proof -
  from assms obtain m r where
    r: "construct_groups m (Set_List (a_groups d)) (Groups (account_fields util d)) = Inr r"
    and a: "a = (account_fields util d)\<lparr>Groups := r, Privileges := account_privileges util d\<rparr>"
    by (auto simp: constructJamfProAccount_def Let_def split: sum.splits)
  from construct_groups_names[OF r] a show ?thesis
    by simp
qed

text \<open>
  Claim C7, as amended. The department constructor is a function of the
  configured name alone. The account constructor looks the groups up on the
  remote: its result is a function of the configuration and of the answer of
  \<open>GetAccounts\<close>, so two runs on the same configuration that get the same
  answer yield the same result; it does not depend on the stored identifier;
  and two successful runs on the same configuration, on any two remotes,
  yield accounts that agree on every field except the IDs of the groups.
\<close>

theorem constructor_determined_by_configuration:
  "(dep_name dd = dep_name dd' \<longrightarrow>
      constructJamfProDepartment dd = constructJamfProDepartment dd') \<and>
   (GetAccounts cl w = GetAccounts cl' w' \<longrightarrow>
      fst (constructJamfProAccount util d cl w) = fst (constructJamfProAccount util d cl' w')) \<and>
   fst (constructJamfProAccount util (d\<lparr>a_id := i\<rparr>) cl w)
     = fst (constructJamfProAccount util d cl w) \<and>
   (fst (constructJamfProAccount util d cl w) = Inr a \<and>
    fst (constructJamfProAccount util d cl' w') = Inr a' \<longrightarrow>
      a'\<lparr>Groups := map (\<lambda>g. g\<lparr>Group_ID := 0\<rparr>) (Groups a')\<rparr>
        = a\<lparr>Groups := map (\<lambda>g. g\<lparr>Group_ID := 0\<rparr>) (Groups a)\<rparr>)"
proof (intro conjI impI)
  assume "dep_name dd = dep_name dd'"
  then show "constructJamfProDepartment dd = constructJamfProDepartment dd'"
    by (simp add: constructJamfProDepartment_eq)
next
  assume "GetAccounts cl w = GetAccounts cl' w'"
  then show "fst (constructJamfProAccount util d cl w)
      = fst (constructJamfProAccount util d cl' w')"
    by (simp add: constructJamfProAccount_def Let_def split: sum.splits)
next
  have "account_fields util (d\<lparr>a_id := i\<rparr>) = account_fields util d"
    and "account_privileges util (d\<lparr>a_id := i\<rparr>) = account_privileges util d"
    by (simp_all add: account_fields_def account_privileges_def)
  then show "fst (constructJamfProAccount util (d\<lparr>a_id := i\<rparr>) cl w)
      = fst (constructJamfProAccount util d cl w)"
    by (simp add: constructJamfProAccount_def Let_def split: sum.splits)
next
  assume "fst (constructJamfProAccount util d cl w) = Inr a \<and>
    fst (constructJamfProAccount util d cl' w') = Inr a'"
  then have a: "fst (constructJamfProAccount util d cl w) = Inr a"
    and a': "fst (constructJamfProAccount util d cl' w') = Inr a'"
    by simp_all
  show "a'\<lparr>Groups := map (\<lambda>g. g\<lparr>Group_ID := 0\<rparr>) (Groups a')\<rparr>
        = a\<lparr>Groups := map (\<lambda>g. g\<lparr>Group_ID := 0\<rparr>) (Groups a)\<rparr>"
    unfolding constructJamfProAccount_without_group_ids[OF a]
      constructJamfProAccount_without_group_ids[OF a']
    by (rule refl)
qed

text \<open>
  The claim as it was stated fails on the account: the same configuration,
  naming the group \<open>admins\<close>, yields different accounts on two remotes that
  list that group under the IDs 1 and 2.
\<close>

theorem account_constructor_depends_on_remote:
  "fst (constructJamfProAccount identity_assertion grouped_account_data (admins_client 1) [])
     = Inr (constructed_account\<lparr>Groups := [admins_group 1]\<rparr>) \<and>
   fst (constructJamfProAccount identity_assertion grouped_account_data (admins_client 2) [])
     = Inr (constructed_account\<lparr>Groups := [admins_group 2]\<rparr>) \<and>
   fst (constructJamfProAccount identity_assertion grouped_account_data (admins_client 1) [])
     \<noteq> fst (constructJamfProAccount identity_assertion grouped_account_data (admins_client 2) [])"
  by (simp add: example_defs callback_defs)

text \<open>
  The same two remotes: the two accounts agree once the group IDs are set
  aside; and two runs against the same remote at different times yield the
  same account.
\<close>

theorem constructor_determined_by_configuration_witness:
  "GetAccounts (admins_client 1) [] = GetAccounts (admins_client 1) [CallGetAccounts] \<and>
   fst (constructJamfProAccount identity_assertion grouped_account_data (admins_client 1) [])
     = fst (constructJamfProAccount identity_assertion grouped_account_data (admins_client 1)
         [CallGetAccounts]) \<and>
   (constructed_account\<lparr>Groups := [admins_group 2]\<rparr>)
      \<lparr>Groups := map (\<lambda>g. g\<lparr>Group_ID := 0\<rparr>)
         (Groups (constructed_account\<lparr>Groups := [admins_group 2]\<rparr>))\<rparr>
     = (constructed_account\<lparr>Groups := [admins_group 1]\<rparr>)
      \<lparr>Groups := map (\<lambda>g. g\<lparr>Group_ID := 0\<rparr>)
         (Groups (constructed_account\<lparr>Groups := [admins_group 1]\<rparr>))\<rparr> \<and>
   constructJamfProDepartment example_department = constructJamfProDepartment new_department"
proof -
  have g: "GetAccounts (admins_client 1) [] = GetAccounts (admins_client 1) [CallGetAccounts]"
    by (simp add: example_defs)
  have c1: "fst (constructJamfProAccount identity_assertion grouped_account_data
      (admins_client 1) []) = Inr (constructed_account\<lparr>Groups := [admins_group 1]\<rparr>)"
    by (simp add: example_defs callback_defs)
  have c2: "fst (constructJamfProAccount identity_assertion grouped_account_data
      (admins_client 2) []) = Inr (constructed_account\<lparr>Groups := [admins_group 2]\<rparr>)"
    by (simp add: example_defs callback_defs)
  have n: "dep_name example_department = dep_name new_department"
    by (simp add: example_defs)
  note inst = constructor_determined_by_configuration
    [where util = identity_assertion and d = grouped_account_data and cl = "admins_client 1"
       and w = "[]" and dd = example_department and dd' = new_department]
  from inst[where cl' = "admins_client 1" and w' = "[CallGetAccounts]"] g
  have s: "fst (constructJamfProAccount identity_assertion grouped_account_data
      (admins_client 1) [])
     = fst (constructJamfProAccount identity_assertion grouped_account_data (admins_client 1)
         [CallGetAccounts])"
    by blast
  from inst[where cl' = "admins_client 2" and w' = "[]"
      and a = "constructed_account\<lparr>Groups := [admins_group 1]\<rparr>"
      and a' = "constructed_account\<lparr>Groups := [admins_group 2]\<rparr>"] c1 c2
  have e: "(constructed_account\<lparr>Groups := [admins_group 2]\<rparr>)
      \<lparr>Groups := map (\<lambda>g. g\<lparr>Group_ID := 0\<rparr>)
         (Groups (constructed_account\<lparr>Groups := [admins_group 2]\<rparr>))\<rparr>
     = (constructed_account\<lparr>Groups := [admins_group 1]\<rparr>)
      \<lparr>Groups := map (\<lambda>g. g\<lparr>Group_ID := 0\<rparr>)
         (Groups (constructed_account\<lparr>Groups := [admins_group 1]\<rparr>))\<rparr>"
    by blast
  from inst[where cl' = "admins_client 2" and w' = "[]"] n
  have dp: "constructJamfProDepartment example_department
      = constructJamfProDepartment new_department"
    by blast
  from g s e dp show ?thesis by blast
qed


end
